theory Spec2Isabelle
  imports Main "HOL-Library.AList"
begin

section \<open>The deployment pipeline of \<^verbatim>\<open>src/deployment/pipeline.py\<close>\<close>

text \<open>
  The pipeline is a Python class whose methods talk to the outside world: they spawn
  shell commands, issue HTTP requests, read the environment variables and the clock,
  read and write YAML files, sleep and print. The embedding makes all of that explicit:

  \<^item> what the outside world answers is a parameter, the record \<open>world\<close>. Every answer
    is indexed by the number of answers given so far (\<open>step\<close>), so the same command
    or request may be answered differently each time it is issued. A spawned command
    answers with a result or with an exception (\<^verbatim>\<open>subprocess.run\<close> with
    \<^verbatim>\<open>text=True\<close> raises \<^verbatim>\<open>UnicodeDecodeError\<close> on output it cannot decode
    and \<^verbatim>\<open>OSError\<close> when it cannot spawn), a request with a response or an exception;
  \<^item> what the program does to the outside world is the \<open>state\<close>: the list of effects
    in the order they happened (\<open>trace\<close>) and the file system (\<open>files\<close>);
  \<^item> an exception is a value of \<open>exn\<close>, and a method that may raise returns
    \<open>exn + 'a\<close> together with the state reached.

  Text is a list of bytes. The pictographs of the source's messages are written as their
  UTF-8 encoding. Printing, reading the clock and the environment, and opening a file that
  exists are taken not to raise.
\<close>

subsection \<open>Data\<close>

text \<open>
  What \<^verbatim>\<open>yaml.safe_load\<close> returns is a graph of Python objects: scalars, tuples (the
  pairs of \<^verbatim>\<open>!!omap\<close> and \<^verbatim>\<open>!!pairs\<close>), lists and dictionaries in insertion order.
  A list or a dictionary that only one place of the document refers to is written where
  it occurs (\<open>YList\<close>, \<open>YDict\<close>). One that an alias makes reachable from several places,
  or from itself, lives in a cell of the document's store (\<open>shared\<close>) and every place
  that refers to it holds \<open>YRef\<close> with the cell's address: changing the object in place
  changes the cell, and all the places see it. Scalars of other types (floats, dates,
  sets) carry the name of their Python type and their text. The same values, without
  aliases, serve for the JSON bodies of the HTTP requests.
\<close>

datatype yaml =
    YNull
  | YBool bool
  | YInt int
  | YStr string
  | YOther string string
  | YTuple "yaml list"
  | YList "yaml list"
  | YDict "(yaml \<times> yaml) list"
  | YRef nat

datatype cell = CList "yaml list" | CDict "(yaml \<times> yaml) list"

record document =
  root :: yaml
  shared :: "(nat \<times> cell) list"

text \<open>
  A file is what \<^verbatim>\<open>yaml.safe_load\<close> makes of it: a document, or the error it raises.
\<close>

datatype file_content = Parsed document | Malformed string

datatype exn =
    FileNotFoundError string
  | YAMLError string
  | KeyError string
  | TypeError string
  | IndexError string
  | AttributeError string
  | UnicodeDecodeError string
  | OSError string
  | PlainException string

datatype http_result = Response int string | Raises string

record cmd_result =
  returncode :: int
  stdout :: string
  stderr :: string

text \<open>
  \<open>Exec cmd\<close>: \<^verbatim>\<open>subprocess\<close> was asked to run \<open>cmd\<close>. \<open>FileWrite path doc\<close>: the
  file was opened for writing and \<open>doc\<close> was dumped into it.
\<close>

datatype event =
    Print string
  | Exec string
  | HttpGet string nat
  | HttpPost string "(string \<times> string) list" yaml
  | Sleep nat
  | FileWrite string document

record world =
  getenv :: "string \<rightharpoonup> string"
  shell :: "nat \<Rightarrow> string \<Rightarrow> exn + cmd_result"
  getoutput :: "nat \<Rightarrow> string \<Rightarrow> exn + string"
  http_get :: "nat \<Rightarrow> string \<Rightarrow> nat \<Rightarrow> http_result"
  http_post :: "nat \<Rightarrow> string \<Rightarrow> (string \<times> string) list \<Rightarrow> yaml \<Rightarrow> http_result"
  now_iso :: "nat \<Rightarrow> string"
  fmt_duration :: "nat \<Rightarrow> nat \<Rightarrow> string"

record state =
  step :: nat
  trace :: "event list"
  files :: "string \<rightharpoonup> file_content"

text \<open>
  The fields of \<^verbatim>\<open>DeploymentPipeline\<close>. A reading of the clock is named by the step
  at which it was taken; \<open>fmt_duration w t0 t1\<close> is the text \<^verbatim>\<open>f"{duration:.0f}"\<close> of
  the time between two readings.
\<close>

record pipeline =
  service_name :: string
  environment :: string
  dry_run :: bool
  config :: document
  deployment_start :: nat

subsection \<open>Effects\<close>

definition emit :: "event \<Rightarrow> state \<Rightarrow> state" where
  "emit e s = s\<lparr>trace := trace s @ [e]\<rparr>"

definition print :: "string \<Rightarrow> state \<Rightarrow> state" where
  "print t s = emit (Print t) s"

definition tick :: "state \<Rightarrow> state" where
  "tick s = s\<lparr>step := Suc (step s)\<rparr>"

text \<open>\<^verbatim>\<open>os.getenv(name, default)\<close> and the truth value of an optional string.\<close>

definition getenv_default :: "world \<Rightarrow> string \<Rightarrow> string \<Rightarrow> string" where
  "getenv_default w name dflt = (case getenv w name of None \<Rightarrow> dflt | Some v \<Rightarrow> v)"

definition falsy :: "string option \<Rightarrow> bool" where
  "falsy v = (case v of None \<Rightarrow> True | Some t \<Rightarrow> t = [])"

subsection \<open>Text\<close>

fun str_nat :: "nat \<Rightarrow> string" where
  "str_nat n =
     (if n < 10 then [''0123456789'' ! n]
      else str_nat (n div 10) @ [''0123456789'' ! (n mod 10)])"

declare str_nat.simps [simp del]

definition str_int :: "int \<Rightarrow> string" where
  "str_int i = (if i < 0 then ''-'' @ str_nat (nat (- i)) else str_nat (nat i))"

text \<open>\<^verbatim>\<open>s.split(c)\<close> for a one-character separator.\<close>

fun split_on :: "char \<Rightarrow> string \<Rightarrow> string list" where
  "split_on c [] = [[]]"
| "split_on c (x # xs) =
     (if x = c then [] # split_on c xs
      else (case split_on c xs of
              [] \<Rightarrow> [[x]]
            | t # ts \<Rightarrow> (x # t) # ts))"

text \<open>\<^verbatim>\<open>xs[i]\<close> for a non-negative index.\<close>

definition index :: "'a list \<Rightarrow> nat \<Rightarrow> exn + 'a" where
  "index xs i = (if i < length xs then Inr (xs ! i) else Inl (IndexError ''list index out of range''))"

text \<open>\<^verbatim>\<open>sep.join(parts)\<close>\<close>

fun join :: "string \<Rightarrow> string list \<Rightarrow> string" where
  "join sep [] = []"
| "join sep [x] = x"
| "join sep (x # y # ys) = x @ sep @ join sep (y # ys)"

text \<open>
  \<^verbatim>\<open>str(Path(t))\<close> on a POSIX system: empty components and \<^verbatim>\<open>.\<close> are dropped, a
  leading slash is kept (two of them when there are exactly two), and nothing is left as
  \<^verbatim>\<open>.\<close>.
\<close>

definition posix_path :: "string \<Rightarrow> string" where
  "posix_path t =
     (let parts = filter (\<lambda>c. c \<noteq> [] \<and> c \<noteq> ''.'') (split_on CHR ''/'' t);
          anchor = (if take 2 t = ''//'' \<and> take 3 t \<noteq> ''///'' then ''//''
                    else if take 1 t = ''/'' then ''/'' else [])
      in if anchor = [] \<and> parts = [] then ''.'' else anchor @ join ''/'' parts)"

definition hammer :: string where "hammer = [CHR 0xF0, CHR 0x9F, CHR 0x94, CHR 0xA8]"
definition check_mark :: string where "check_mark = [CHR 0xE2, CHR 0x9C, CHR 0x85]"
definition test_tube :: string where "test_tube = [CHR 0xF0, CHR 0x9F, CHR 0xA7, CHR 0xAA]"
definition cross_mark :: string where "cross_mark = [CHR 0xE2, CHR 0x9D, CHR 0x8C]"
definition small_check :: string where "small_check = [CHR 0xE2, CHR 0x9C, CHR 0x93]"
definition magnifier :: string where "magnifier = [CHR 0xF0, CHR 0x9F, CHR 0x94, CHR 0x8D]"
definition warning_sign :: string where
  "warning_sign = [CHR 0xE2, CHR 0x9A, CHR 0xA0, CHR 0xEF, CHR 0xB8, CHR 0x8F]"
definition memo :: string where "memo = [CHR 0xF0, CHR 0x9F, CHR 0x93, CHR 0x9D]"
definition cycle_arrows :: string where "cycle_arrows = [CHR 0xF0, CHR 0x9F, CHR 0x94, CHR 0x84]"
definition hourglass :: string where "hourglass = [CHR 0xE2, CHR 0x8F, CHR 0xB3]"
definition hospital :: string where "hospital = [CHR 0xF0, CHR 0x9F, CHR 0x8F, CHR 0xA5]"
definition back_arrow :: string where "back_arrow = [CHR 0xF0, CHR 0x9F, CHR 0x94, CHR 0x99]"
definition rocket :: string where "rocket = [CHR 0xF0, CHR 0x9F, CHR 0x9A, CHR 0x80]"
definition stopwatch :: string where
  "stopwatch = [CHR 0xE2, CHR 0x8F, CHR 0xB1, CHR 0xEF, CHR 0xB8, CHR 0x8F]"

subsection \<open>\<^verbatim>\<open>_load_config\<close> and the constructor\<close>

definition load_config :: "state \<Rightarrow> exn + document" where
  "load_config s =
     (case files s ''catalog-info.yaml'' of
        None \<Rightarrow> Inl (FileNotFoundError ''catalog-info.yaml not found'')
      | Some (Malformed m) \<Rightarrow> Inl (YAMLError m)
      | Some (Parsed d) \<Rightarrow> Inr d)"

definition init :: "string \<Rightarrow> string \<Rightarrow> bool \<Rightarrow> state \<Rightarrow> (exn + pipeline) \<times> state" where
  "init service env dry s =
     (case load_config s of
        Inl e \<Rightarrow> (Inl e, s)
      | Inr cfg \<Rightarrow>
          (Inr \<lparr>service_name = service, environment = env, dry_run = dry,
                config = cfg, deployment_start = step s\<rparr>, tick s))"

subsection \<open>\<^verbatim>\<open>_run_command\<close>\<close>

text \<open>
  With \<^verbatim>\<open>check=True\<close> a non-zero exit raises \<^verbatim>\<open>CalledProcessError\<close> inside
  \<^verbatim>\<open>subprocess.run\<close>; the method catches it and returns the exit code with the
  standard error text. It catches nothing else: any other exception of
  \<^verbatim>\<open>subprocess.run\<close> leaves the method.
\<close>

definition run_command ::
  "world \<Rightarrow> pipeline \<Rightarrow> string \<Rightarrow> bool \<Rightarrow> state \<Rightarrow> (exn + int \<times> string) \<times> state" where
  "run_command w p cmd check s =
     (if dry_run p
      then (Inr (0, ''dry-run-output''), print (''[DRY RUN] Would execute: '' @ cmd) s)
      else
        (let s' = tick (emit (Exec cmd) s)
         in case shell w (step s) cmd of
              Inl e \<Rightarrow> (Inl e, s')
            | Inr r \<Rightarrow>
                if check \<and> returncode r \<noteq> 0 then (Inr (returncode r, stderr r), s')
                else (Inr (returncode r, stdout r), s')))"

subsection \<open>\<^verbatim>\<open>build_image\<close>\<close>

text \<open>
  The default of \<^verbatim>\<open>os.getenv("GITHUB_SHA", subprocess.getoutput(...))\<close> is an
  argument: \<^verbatim>\<open>git rev-parse HEAD\<close> is spawned on every call, also in dry-run mode.
\<close>

definition build_image :: "world \<Rightarrow> pipeline \<Rightarrow> state \<Rightarrow> (exn + string) \<times> state" where
  "build_image w p s =
     (let s1 = tick (emit (Exec ''git rev-parse HEAD'') s)
      in case getoutput w (step s) ''git rev-parse HEAD'' of
           Inl e \<Rightarrow> (Inl e, s1)
         | Inr head \<Rightarrow>
     (let git_sha = take 8 (getenv_default w ''GITHUB_SHA'' head);
          image_tag = service_name p @ '':'' @ git_sha;
          s2 = print (hammer @ '' Building image: '' @ image_tag) s1
      in case run_command w p (''docker build -t '' @ image_tag @ '' .'') True s2 of
           (Inl e, s3) \<Rightarrow> (Inl e, s3)
         | (Inr (rc, output), s3) \<Rightarrow>
     if rc \<noteq> 0 then (Inl (PlainException (''Docker build failed: '' @ output)), s3)
     else
     (let registry = getenv_default w ''REGISTRY_URL'' ''registry.company.com'';
          full_tag = registry @ ''/'' @ image_tag
      in case run_command w p (''docker tag '' @ image_tag @ '' '' @ full_tag) True s3 of
           (Inl e, s4) \<Rightarrow> (Inl e, s4)
         | (Inr _, s4) \<Rightarrow>
     (case run_command w p (''docker push '' @ full_tag) True s4 of
        (Inl e, s5) \<Rightarrow> (Inl e, s5)
      | (Inr _, s5) \<Rightarrow>
          (Inr full_tag, print (check_mark @ '' Image built and pushed: '' @ full_tag) s5)))))"

subsection \<open>\<^verbatim>\<open>run_tests\<close>\<close>

definition tests :: "(string \<times> string) list" where
  "tests =
     [(''Unit tests'', ''pytest tests/unit -v --cov=. --cov-report=xml''),
      (''Integration tests'', ''pytest tests/integration -v''),
      (''Linting'', ''flake8 . --count --select=E9,F63,F7,F82 --show-source --statistics''),
      (''Type checking'', ''mypy . --ignore-missing-imports'')]"

fun run_tests_loop ::
  "world \<Rightarrow> pipeline \<Rightarrow> (string \<times> string) list \<Rightarrow> state \<Rightarrow> (exn + bool) \<times> state" where
  "run_tests_loop w p [] s = (Inr True, print (check_mark @ '' All tests passed'') s)"
| "run_tests_loop w p ((test_name, test_cmd) # rest) s =
     (let s1 = print (''  Running '' @ test_name @ ''...'') s
      in case run_command w p test_cmd False s1 of
           (Inl e, s2) \<Rightarrow> (Inl e, s2)
         | (Inr (rc, output), s2) \<Rightarrow>
             if rc \<noteq> 0
             then (Inr False,
                   print output (print (cross_mark @ '' '' @ test_name @ '' failed:'') s2))
             else run_tests_loop w p rest
                    (print (''  '' @ small_check @ '' '' @ test_name @ '' passed'') s2))"

definition run_tests :: "world \<Rightarrow> pipeline \<Rightarrow> state \<Rightarrow> (exn + bool) \<times> state" where
  "run_tests w p s = run_tests_loop w p tests (print (test_tube @ '' Running test suite...'') s)"

subsection \<open>\<^verbatim>\<open>security_scan\<close>\<close>

definition scan_cmd :: "string \<Rightarrow> string" where
  "scan_cmd image_tag = ''trivy image --severity HIGH,CRITICAL --exit-code 1 '' @ image_tag"

definition bypass_note :: string where
  "bypass_note =
     warning_sign @ ''  Proceeding despite vulnerabilities in non-production environment''"

definition security_scan ::
  "world \<Rightarrow> pipeline \<Rightarrow> string \<Rightarrow> state \<Rightarrow> (exn + bool) \<times> state" where
  "security_scan w p image_tag s =
     (let s1 = print (magnifier @ '' Scanning image for vulnerabilities: '' @ image_tag) s
      in case run_command w p (scan_cmd image_tag) False s1 of
           (Inl e, s2) \<Rightarrow> (Inl e, s2)
         | (Inr (rc, output), s2) \<Rightarrow>
             if rc \<noteq> 0
             then
               (let s3 = print output (print (cross_mark @ '' Security vulnerabilities found:'') s2)
                in if environment p \<in> set [''dev'', ''staging'']
                   then (Inr True, print bypass_note s3)
                   else (Inr False, s3))
             else (Inr True, print (check_mark @ '' Security scan passed'') s2))"

subsection \<open>\<^verbatim>\<open>update_manifest\<close>\<close>

definition quote :: string where "quote = [CHR 0x27]"

fun type_name :: "yaml \<Rightarrow> string" where
  "type_name YNull = ''NoneType''"
| "type_name (YBool _) = ''bool''"
| "type_name (YInt _) = ''int''"
| "type_name (YStr _) = ''str''"
| "type_name (YOther ty _) = ty"
| "type_name (YTuple _) = ''tuple''"
| "type_name (YList _) = ''list''"
| "type_name (YDict _) = ''dict''"
| "type_name (YRef _) = ''NoneType''"

text \<open>
  The object that a value stands for: itself, or the content of the cell it refers to. An
  alias always names a cell of its document; one that does not is read as \<^verbatim>\<open>None\<close>.
\<close>

fun inline :: "cell \<Rightarrow> yaml" where
  "inline (CList xs) = YList xs"
| "inline (CDict kvs) = YDict kvs"

fun deref :: "(nat \<times> cell) list \<Rightarrow> yaml \<Rightarrow> yaml" where
  "deref h (YRef a) = (case map_of h a of None \<Rightarrow> YNull | Some c \<Rightarrow> inline c)"
| "deref h v = v"

text \<open>
  \<^verbatim>\<open>obj[k]\<close> and \<^verbatim>\<open>obj.get(k, default)\<close> for a string key \<open>k\<close>, on the object that
  \<open>x\<close> stands for. Only a dictionary accepts a string key: every other value raises. The
  wording of the interpreter's messages follows CPython's.
\<close>

fun subscript :: "yaml \<Rightarrow> string \<Rightarrow> exn + yaml" where
  "subscript (YDict kvs) k =
     (case map_of kvs (YStr k) of None \<Rightarrow> Inl (KeyError k) | Some v \<Rightarrow> Inr v)"
| "subscript (YList xs) k = Inl (TypeError ''list indices must be integers or slices, not str'')"
| "subscript (YTuple xs) k =
     Inl (TypeError ''tuple indices must be integers or slices, not str'')"
| "subscript (YStr t) k =
     Inl (TypeError (''string indices must be integers, not '' @ quote @ ''str'' @ quote))"
| "subscript v k =
     Inl (TypeError (quote @ type_name v @ quote @ '' object is not subscriptable''))"

definition getitem :: "(nat \<times> cell) list \<Rightarrow> yaml \<Rightarrow> string \<Rightarrow> exn + yaml" where
  "getitem h x k = subscript (deref h x) k"

definition dict_get :: "(nat \<times> cell) list \<Rightarrow> yaml \<Rightarrow> string \<Rightarrow> yaml \<Rightarrow> exn + yaml" where
  "dict_get h x k dflt =
     (case deref h x of
        YDict kvs \<Rightarrow> (case map_of kvs (YStr k) of None \<Rightarrow> Inr dflt | Some v \<Rightarrow> Inr v)
      | d \<Rightarrow> Inl (AttributeError (quote @ type_name d @ quote @ '' object has no attribute ''
                                  @ quote @ ''get'' @ quote)))"

text \<open>
  \<^verbatim>\<open>obj[k] = v\<close> on the object that \<open>x\<close> stands for. Assigning to a key of a
  dictionary keeps the key's place; a new key goes last. The result is the value that now
  stands for the object, and the store: a dictionary written in place is replaced, a
  shared one is changed in its cell.
\<close>

definition no_item_assignment :: "yaml \<Rightarrow> exn" where
  "no_item_assignment d =
     (case d of
        YList xs \<Rightarrow> TypeError ''list indices must be integers or slices, not str''
      | _ \<Rightarrow> TypeError (quote @ type_name d @ quote
                          @ '' object does not support item assignment''))"

fun setitem ::
  "(nat \<times> cell) list \<Rightarrow> yaml \<Rightarrow> string \<Rightarrow> yaml \<Rightarrow> exn + yaml \<times> (nat \<times> cell) list" where
  "setitem h (YDict kvs) k v = Inr (YDict (AList.update (YStr k) v kvs), h)"
| "setitem h (YRef a) k v =
     (case map_of h a of
        Some (CDict kvs) \<Rightarrow>
          Inr (YRef a, AList.update a (CDict (AList.update (YStr k) v kvs)) h)
      | _ \<Rightarrow> Inl (no_item_assignment (deref h (YRef a))))"
| "setitem h d k v = Inl (no_item_assignment d)"

text \<open>
  \<^verbatim>\<open>values[k] = v\<close> and \<^verbatim>\<open>values[k1][k2] = v\<close> on a document. In the second the
  inner object is changed in place: when it is written in place under \<open>k1\<close> the changed
  value is put back there, and when it is shared its cell has changed and putting the
  alias back changes nothing.
\<close>

definition assign :: "document \<Rightarrow> string \<Rightarrow> yaml \<Rightarrow> exn + document" where
  "assign values k v =
     (case setitem (shared values) (root values) k v of
        Inl e \<Rightarrow> Inl e
      | Inr (outer, h) \<Rightarrow> Inr \<lparr>root = outer, shared = h\<rparr>)"

definition assign2 :: "document \<Rightarrow> string \<Rightarrow> string \<Rightarrow> yaml \<Rightarrow> exn + document" where
  "assign2 values k1 k2 v =
     (case getitem (shared values) (root values) k1 of
        Inl e \<Rightarrow> Inl e
      | Inr inner \<Rightarrow>
          (case setitem (shared values) inner k2 v of
             Inl e \<Rightarrow> Inl e
           | Inr (inner', h) \<Rightarrow> assign \<lparr>root = root values, shared = h\<rparr> k1 inner'))"

text \<open>\<^verbatim>\<open>image_tag.split(':')[1] if ':' in image_tag else 'latest'\<close>\<close>

definition image_tag_of :: "string \<Rightarrow> exn + string" where
  "image_tag_of image_tag =
     (if CHR '':'' \<in> set image_tag then index (split_on CHR '':'' image_tag) 1
      else Inr ''latest'')"

text \<open>\<^verbatim>\<open>Path(f"deploy/{self.environment}/values.yaml")\<close>, as every use renders it.\<close>

definition manifest_path :: "pipeline \<Rightarrow> string" where
  "manifest_path p = posix_path (''deploy/'' @ environment p @ ''/values.yaml'')"

definition git_commands :: "pipeline \<Rightarrow> string \<Rightarrow> string list" where
  "git_commands p tag =
     [''git add '' @ manifest_path p,
      ''git commit -m '' @ quote @ ''Deploy '' @ service_name p @ '':'' @ tag @ '' to ''
        @ environment p @ quote,
      ''git push origin main'']"

text \<open>
  \<^verbatim>\<open>for cmd in cmds: self._run_command(cmd)\<close>: the results are dropped, an exception
  ends the loop.
\<close>

fun run_each :: "world \<Rightarrow> pipeline \<Rightarrow> string list \<Rightarrow> state \<Rightarrow> (exn + unit) \<times> state" where
  "run_each w p [] s = (Inr (), s)"
| "run_each w p (cmd # cmds) s =
     (case run_command w p cmd True s of
        (Inl e, s') \<Rightarrow> (Inl e, s')
      | (Inr _, s') \<Rightarrow> run_each w p cmds s')"

text \<open>
  Whether a tuple can be reached from a value, following at most \<open>n\<close> aliases. Every
  object of a document is reached through at most as many aliases as the store has cells.
\<close>

fun has_tuple :: "nat \<Rightarrow> (nat \<times> cell) list \<Rightarrow> yaml \<Rightarrow> bool" where
  "has_tuple n h (YTuple xs) = True"
| "has_tuple n h (YList xs) = list_ex (has_tuple n h) xs"
| "has_tuple n h (YDict kvs) =
     list_ex (\<lambda>kv. has_tuple n h (fst kv) \<or> has_tuple n h (snd kv)) kvs"
| "has_tuple 0 h (YRef a) = False"
| "has_tuple (Suc n) h (YRef a) =
     (case map_of h a of None \<Rightarrow> False | Some c \<Rightarrow> has_tuple n h (inline c))"
| "has_tuple n h v = False"

text \<open>
  What \<^verbatim>\<open>yaml.safe_load\<close> makes of what \<^verbatim>\<open>yaml.dump\<close> wrote. The dumper writes an
  anchor for every object reached twice, so the sharing is read back as it was, and it
  writes a tuple under the tag \<^verbatim>\<open>!!python/tuple\<close>, which the safe loader refuses.
  Every other value is read back as it was.
\<close>

definition reload :: "document \<Rightarrow> file_content" where
  "reload doc =
     (if has_tuple (length (shared doc)) (shared doc) (root doc)
      then Malformed (''could not determine a constructor for the tag '' @ quote
                      @ ''tag:yaml.org,2002:python/tuple'' @ quote)
      else Parsed doc)"

definition write_file :: "string \<Rightarrow> document \<Rightarrow> state \<Rightarrow> state" where
  "write_file path doc s = emit (FileWrite path doc) (s\<lparr>files := (files s)(path \<mapsto> reload doc)\<rparr>)"

definition update_manifest ::
  "world \<Rightarrow> pipeline \<Rightarrow> string \<Rightarrow> state \<Rightarrow> (exn + unit) \<times> state" where
  "update_manifest w p image_tag s =
     (case files s (manifest_path p) of
        None \<Rightarrow> (Inl (FileNotFoundError (''Manifest not found: '' @ manifest_path p)), s)
      | Some content \<Rightarrow>
     (let s1 = print (memo @ '' Updating manifest: '' @ manifest_path p) s in
      case content of
        Malformed m \<Rightarrow> (Inl (YAMLError m), s1)
      | Parsed values \<Rightarrow>
     (case image_tag_of image_tag of
        Inl e \<Rightarrow> (Inl e, s1)
      | Inr tag \<Rightarrow>
     (case assign2 values ''image'' ''tag'' (YStr tag) of
        Inl e \<Rightarrow> (Inl e, s1)
      | Inr values1 \<Rightarrow>
     (case dict_get (shared values1) (root values1) ''deployment'' (YDict []) of
        Inl e \<Rightarrow> (Inl e, s1)
      | Inr d \<Rightarrow>
     (case assign values1 ''deployment'' d of
        Inl e \<Rightarrow> (Inl e, s1)
      | Inr values2 \<Rightarrow>
     (let stamp = now_iso w (step s1);
          s2 = tick s1
      in
      case assign2 values2 ''deployment'' ''lastUpdated'' (YStr stamp) of
        Inl e \<Rightarrow> (Inl e, s2)
      | Inr values3 \<Rightarrow>
     (case assign2 values3 ''deployment'' ''updatedBy''
             (YStr (getenv_default w ''GITHUB_ACTOR'' ''unknown'')) of
        Inl e \<Rightarrow> (Inl e, s2)
      | Inr values4 \<Rightarrow>
     (let s3 = write_file (manifest_path p) values4 s2
      in case run_each w p (git_commands p tag) s3 of
           (Inl e, s4) \<Rightarrow> (Inl e, s4)
         | (Inr _, s4) \<Rightarrow>
             (Inr (), print (check_mark @ '' Manifest updated and pushed'') s4))))))))))"

subsection \<open>\<^verbatim>\<open>trigger_argocd_sync\<close>\<close>

text \<open>How an f-string renders an optional string.\<close>

definition fmt_opt :: "string option \<Rightarrow> string" where
  "fmt_opt v = (case v of None \<Rightarrow> ''None'' | Some t \<Rightarrow> t)"

definition app_name :: "pipeline \<Rightarrow> string" where
  "app_name p = service_name p @ ''-'' @ environment p"

definition sync_url :: "world \<Rightarrow> pipeline \<Rightarrow> string" where
  "sync_url w p =
     fmt_opt (getenv w ''ARGOCD_API_URL'') @ ''/api/v1/applications/'' @ app_name p @ ''/sync''"

definition sync_headers :: "world \<Rightarrow> (string \<times> string) list" where
  "sync_headers w = [(''Authorization'', ''Bearer '' @ fmt_opt (getenv w ''ARGOCD_TOKEN''))]"

definition sync_body :: "pipeline \<Rightarrow> yaml" where
  "sync_body p = YDict [(YStr ''prune'', YBool False), (YStr ''dryRun'', YBool (dry_run p))]"

definition trigger_argocd_sync :: "world \<Rightarrow> pipeline \<Rightarrow> state \<Rightarrow> bool \<times> state" where
  "trigger_argocd_sync w p s =
     (let argocd_api = getenv w ''ARGOCD_API_URL'';
          argocd_token = getenv w ''ARGOCD_TOKEN''
      in if falsy argocd_api \<or> falsy argocd_token
         then (True, print (warning_sign
                 @ ''  ArgoCD credentials not configured, skipping sync trigger'') s)
         else
           (let s1 = print (cycle_arrows @ '' Triggering ArgoCD sync for: '' @ app_name p) s;
                response = http_post w (step s1) (sync_url w p) (sync_headers w) (sync_body p);
                s2 = tick (emit (HttpPost (sync_url w p) (sync_headers w) (sync_body p)) s1)
            in case response of
                 Response status_code body \<Rightarrow>
                   if status_code = 200
                   then (True, print (check_mark @ '' ArgoCD sync triggered successfully'') s2)
                   else (False, print (cross_mark @ '' ArgoCD sync failed: '' @ body) s2)
               | Raises e \<Rightarrow>
                   (False, print (cross_mark @ '' Failed to trigger ArgoCD sync: '' @ e) s2)))"

subsection \<open>\<^verbatim>\<open>_verify_health\<close> and \<^verbatim>\<open>wait_for_deployment\<close>\<close>

definition service_url :: "pipeline \<Rightarrow> string" where
  "service_url p = ''https://'' @ service_name p @ ''.'' @ environment p @ ''.company.com''"

definition health_url :: "pipeline \<Rightarrow> string" where
  "health_url p = service_url p @ ''/health''"

text \<open>\<^verbatim>\<open>if attempt < max_retries - 1: time.sleep(10)\<close>\<close>

definition pause :: "nat \<Rightarrow> nat \<Rightarrow> state \<Rightarrow> state" where
  "pause max_retries attempt s = (if attempt < max_retries - 1 then emit (Sleep 10) s else s)"

fun verify_loop :: "world \<Rightarrow> pipeline \<Rightarrow> nat \<Rightarrow> nat list \<Rightarrow> state \<Rightarrow> bool \<times> state" where
  "verify_loop w p max_retries [] s =
     (False, print (cross_mark @ '' Health check failed after maximum retries'') s)"
| "verify_loop w p max_retries (attempt # rest) s =
     (let response = http_get w (step s) (health_url p) 10;
          s1 = tick (emit (HttpGet (health_url p) 10) s)
      in case response of
           Response status_code body \<Rightarrow>
             if status_code = 200
             then (True, print (check_mark @ '' Health check passed'') s1)
             else verify_loop w p max_retries rest
                    (pause max_retries attempt
                       (print (warning_sign @ ''  Health check returned '' @ str_int status_code
                               @ '', retrying...'') s1))
         | Raises e \<Rightarrow>
             verify_loop w p max_retries rest
               (pause max_retries attempt
                  (print (warning_sign @ ''  Health check failed (attempt ''
                          @ str_nat (attempt + 1) @ ''/'' @ str_nat max_retries @ ''): '' @ e) s1)))"

definition verify_health :: "world \<Rightarrow> pipeline \<Rightarrow> state \<Rightarrow> bool \<times> state" where
  "verify_health w p s =
     (if dry_run p then (True, print ''[DRY RUN] Would verify health'' s)
      else verify_loop w p 5 [0..<5]
             (print (hospital @ '' Verifying service health: '' @ health_url p) s))"

definition rollout_status_cmd :: "pipeline \<Rightarrow> nat \<Rightarrow> string" where
  "rollout_status_cmd p timeout =
     ''kubectl rollout status deployment/'' @ service_name p @ '' ''
     @ ''-n '' @ environment p @ '' --timeout='' @ str_nat timeout @ ''s''"

definition newline :: string where "newline = [CHR 0x0A]"

definition wait_for_deployment ::
  "world \<Rightarrow> pipeline \<Rightarrow> nat \<Rightarrow> state \<Rightarrow> (exn + bool) \<times> state" where
  "wait_for_deployment w p timeout s =
     (let s1 = print (hourglass @ '' Waiting for '' @ service_name p @ '' deployment (timeout: ''
                      @ str_nat timeout @ ''s)...'') s
      in if dry_run p then (Inr True, print ''[DRY RUN] Would wait for deployment'' s1)
         else
           (case run_command w p (rollout_status_cmd p timeout) False s1 of
              (Inl e, s2) \<Rightarrow> (Inl e, s2)
            | (Inr (rc, output), s2) \<Rightarrow>
                if rc \<noteq> 0
                then (Inr False, print (cross_mark @ '' Deployment failed or timed out:''
                                        @ newline @ output) s2)
                else
                  (let (healthy, s3) =
                         verify_health w p
                           (print (check_mark @ '' Deployment completed successfully'') s2)
                   in (Inr healthy, s3))))"

subsection \<open>\<^verbatim>\<open>rollback\<close>\<close>

definition rollback_cmd :: "pipeline \<Rightarrow> string" where
  "rollback_cmd p =
     ''kubectl rollout undo deployment/'' @ service_name p @ '' -n '' @ environment p"

definition rollback :: "world \<Rightarrow> pipeline \<Rightarrow> state \<Rightarrow> (exn + bool) \<times> state" where
  "rollback w p s =
     (let s1 = print (back_arrow @ '' Initiating rollback...'') s
      in case run_command w p (rollback_cmd p) False s1 of
           (Inl e, s2) \<Rightarrow> (Inl e, s2)
         | (Inr (rc, output), s2) \<Rightarrow>
             if rc = 0 then (Inr True, print (check_mark @ '' Rollback completed successfully'') s2)
             else (Inr False, print (cross_mark @ '' Rollback failed: '' @ output) s2))"

subsection \<open>\<^verbatim>\<open>send_notification\<close>\<close>

definition slack_field :: "string \<Rightarrow> string \<Rightarrow> bool \<Rightarrow> yaml" where
  "slack_field title v short =
     YDict [(YStr ''title'', YStr title), (YStr ''value'', YStr v), (YStr ''short'', YBool short)]"

definition payload :: "pipeline \<Rightarrow> bool \<Rightarrow> string \<Rightarrow> string \<Rightarrow> yaml" where
  "payload p success duration message =
     (let color = (if success then ''good'' else ''danger'');
          emoji = (if success then check_mark else cross_mark)
      in YDict [(YStr ''attachments'', YList [YDict
           [(YStr ''color'', YStr color),
            (YStr ''title'',
               YStr (emoji @ '' Deployment '' @ (if success then ''Succeeded'' else ''Failed''))),
            (YStr ''fields'', YList
               [slack_field ''Service'' (service_name p) True,
                slack_field ''Environment'' (environment p) True,
                slack_field ''Duration'' (duration @ ''s'') True,
                slack_field ''Status'' message False])]])])"

definition send_notification :: "world \<Rightarrow> pipeline \<Rightarrow> bool \<Rightarrow> string \<Rightarrow> state \<Rightarrow> state" where
  "send_notification w p success message s =
     (let webhook_url = getenv w ''SLACK_WEBHOOK_URL''
      in if falsy webhook_url then s
         else
           (let duration = fmt_duration w (deployment_start p) (step s);
                s1 = tick s;
                body = payload p success duration message;
                response = http_post w (step s1) (fmt_opt webhook_url) [] body;
                s2 = tick (emit (HttpPost (fmt_opt webhook_url) [] body) s1)
            in case response of
                 Response status_code text \<Rightarrow> s2
               | Raises e \<Rightarrow>
                   print (warning_sign @ ''  Failed to send notification: '' @ e) s2))"

subsection \<open>\<^verbatim>\<open>deploy\<close>\<close>

text \<open>\<^verbatim>\<open>str(e)\<close>: the message, and for a \<^verbatim>\<open>KeyError\<close> the key between quotes.\<close>

fun exn_str :: "exn \<Rightarrow> string" where
  "exn_str (FileNotFoundError m) = m"
| "exn_str (YAMLError m) = m"
| "exn_str (KeyError k) = quote @ k @ quote"
| "exn_str (TypeError m) = m"
| "exn_str (IndexError m) = m"
| "exn_str (AttributeError m) = m"
| "exn_str (UnicodeDecodeError m) = m"
| "exn_str (OSError m) = m"
| "exn_str (PlainException m) = m"

definition ruler :: string where "ruler = replicate 60 CHR ''=''"

text \<open>The three lines that \<^verbatim>\<open>deploy\<close> prints first.\<close>

definition announce :: "pipeline \<Rightarrow> state \<Rightarrow> state" where
  "announce p s =
     print (ruler @ newline)
       (print (rocket @ '' Starting deployment for '' @ service_name p @ '' to ''
               @ environment p)
          (print (newline @ ruler) s))"

text \<open>The handler of \<^verbatim>\<open>except Exception as e\<close>.\<close>

definition deploy_error :: "world \<Rightarrow> pipeline \<Rightarrow> exn \<Rightarrow> state \<Rightarrow> bool \<times> state" where
  "deploy_error w p e s =
     (let s1 = print (newline @ cross_mark @ '' Deployment failed with error: '' @ exn_str e) s
      in (False, send_notification w p False (''Deployment error: '' @ exn_str e) s1))"

definition deploy :: "world \<Rightarrow> pipeline \<Rightarrow> state \<Rightarrow> bool \<times> state" where
  "deploy w p s =
     (case run_tests w p (announce p s) of
        (Inl e, s1) \<Rightarrow> deploy_error w p e s1
      | (Inr tests_ok, s1) \<Rightarrow>
     if \<not> tests_ok then (False, send_notification w p False ''Tests failed'' s1)
     else
     (case build_image w p s1 of
        (Inl e, s2) \<Rightarrow> deploy_error w p e s2
      | (Inr image_tag, s2) \<Rightarrow>
     (case security_scan w p image_tag s2 of
        (Inl e, s3) \<Rightarrow> deploy_error w p e s3
      | (Inr scan_ok, s3) \<Rightarrow>
     if \<not> scan_ok then (False, send_notification w p False ''Security scan failed'' s3)
     else
     (case update_manifest w p image_tag s3 of
        (Inl e, s4) \<Rightarrow> deploy_error w p e s4
      | (Inr _, s4) \<Rightarrow>
     (let (sync_ok, s5) = trigger_argocd_sync w p s4
      in if \<not> sync_ok
         then (False, send_notification w p False ''Failed to trigger ArgoCD sync'' s5)
         else
     (case wait_for_deployment w p 600 s5 of
        (Inl e, s6) \<Rightarrow> deploy_error w p e s6
      | (Inr verified, s6) \<Rightarrow>
     if \<not> verified
     then
       (let s7 = print (warning_sign
                   @ ''  Deployment verification failed, initiating rollback...'') s6
        in case rollback w p s7 of
             (Inl e, s8) \<Rightarrow> deploy_error w p e s8
           | (Inr _, s8) \<Rightarrow>
               (False, send_notification w p False ''Deployment failed, rolled back'' s8))
     else
       (let duration = fmt_duration w (deployment_start p) (step s6);
            s7 = tick s6;
            s8 = print (ruler @ newline)
                   (print (stopwatch @ ''  Total deployment time: '' @ duration @ '' seconds'')
                      (print (check_mark @ '' Successfully deployed '' @ image_tag @ '' to ''
                              @ environment p)
                         (print (newline @ ruler) s7)))
        in (True, send_notification w p True
                    (''Deployed '' @ image_tag @ '' in '' @ duration @ ''s'') s8))))))))"

subsection \<open>\<^verbatim>\<open>main\<close>\<close>

text \<open>
  The parsed command line. The process ends by \<^verbatim>\<open>sys.exit\<close> or by an exception
  nobody caught, after which the interpreter prints the traceback and exits with status 1.
\<close>

record args =
  arg_service :: "string option"
  arg_env :: string
  arg_dry_run :: bool

datatype ending = SysExit int | Uncaught exn

fun exit_status :: "ending \<Rightarrow> int" where
  "exit_status (SysExit n) = n"
| "exit_status (Uncaught e) = 1"

definition main :: "world \<Rightarrow> args \<Rightarrow> state \<Rightarrow> ending \<times> state" where
  "main w a s =
     (if falsy (arg_service a)
      then (SysExit 1, print (cross_mark
              @ '' Error: SERVICE_NAME must be provided via --service or environment variable'') s)
      else
        (case init (fmt_opt (arg_service a)) (arg_env a) (arg_dry_run a) s of
           (Inl e, s1) \<Rightarrow> (Uncaught e, s1)
         | (Inr pipeline, s1) \<Rightarrow>
             (let (success, s2) = deploy w pipeline s1
              in (SysExit (if success then 0 else 1), s2))))"

subsection \<open>Observing a run\<close>

text \<open>The effects of a run other than printing, in order.\<close>

fun is_print :: "event \<Rightarrow> bool" where
  "is_print (Print t) = True"
| "is_print e = False"

definition actions :: "event list \<Rightarrow> event list" where
  "actions evs = filter (\<lambda>e. \<not> is_print e) evs"

text \<open>How many times a command was really spawned.\<close>

definition invocations :: "string \<Rightarrow> state \<Rightarrow> nat" where
  "invocations cmd s = count_list (trace s) (Exec cmd)"

subsection \<open>Comparing manifests\<close>

text \<open>
  Of a dictionary written in place: the value under a string key, the keys in order, the
  dictionary without some of its keys, and the dictionary under a key (empty when the key
  is absent). With them: two dictionaries differ at most in the image tag and in the two
  metadata fields of the deployment block, and two dictionaries differ at most in the
  values of the two metadata fields. \<open>field2\<close> reads \<^verbatim>\<open>values[k1][k2]\<close> in a
  document.
\<close>

definition entry :: "yaml \<Rightarrow> string \<Rightarrow> yaml option" where
  "entry doc k = (case doc of YDict kvs \<Rightarrow> map_of kvs (YStr k) | _ \<Rightarrow> None)"

definition keys :: "yaml \<Rightarrow> yaml list" where
  "keys doc = (case doc of YDict kvs \<Rightarrow> map fst kvs | _ \<Rightarrow> [])"

definition except_keys :: "string list \<Rightarrow> yaml \<Rightarrow> yaml" where
  "except_keys ks doc =
     (case doc of
        YDict kvs \<Rightarrow> YDict (filter (\<lambda>kv. fst kv \<notin> YStr ` set ks) kvs)
      | _ \<Rightarrow> doc)"

definition block :: "yaml \<Rightarrow> string \<Rightarrow> yaml" where
  "block doc k = (case entry doc k of None \<Rightarrow> YDict [] | Some v \<Rightarrow> v)"

definition only_tag_and_metadata_differ :: "yaml \<Rightarrow> yaml \<Rightarrow> bool" where
  "only_tag_and_metadata_differ doc doc' \<longleftrightarrow>
     except_keys [''image'', ''deployment''] doc' = except_keys [''image'', ''deployment''] doc
     \<and> except_keys [''tag''] (block doc' ''image'') = except_keys [''tag''] (block doc ''image'')
     \<and> except_keys [''lastUpdated'', ''updatedBy''] (block doc' ''deployment'') =
         except_keys [''lastUpdated'', ''updatedBy''] (block doc ''deployment'')"

definition only_metadata_differ :: "yaml \<Rightarrow> yaml \<Rightarrow> bool" where
  "only_metadata_differ doc doc' \<longleftrightarrow>
     keys doc' = keys doc
     \<and> except_keys [''deployment''] doc' = except_keys [''deployment''] doc
     \<and> keys (block doc' ''deployment'') = keys (block doc ''deployment'')
     \<and> except_keys [''lastUpdated'', ''updatedBy''] (block doc' ''deployment'') =
         except_keys [''lastUpdated'', ''updatedBy''] (block doc ''deployment'')"

definition field2 :: "document \<Rightarrow> string \<Rightarrow> string \<Rightarrow> exn + yaml" where
  "field2 doc k1 k2 =
     (case getitem (shared doc) (root doc) k1 of
        Inl e \<Rightarrow> Inl e
      | Inr inner \<Rightarrow> getitem (shared doc) inner k2)"

text \<open>
  A document whose top-level dictionary, image block and deployment block (when there is
  one) are written in place: no alias refers to any of the three.
\<close>

definition updatable :: "(yaml \<times> yaml) list \<Rightarrow> bool" where
  "updatable kvs \<longleftrightarrow>
     (case map_of kvs (YStr ''image'') of Some (YDict i) \<Rightarrow> True | _ \<Rightarrow> False) \<and>
     (case map_of kvs (YStr ''deployment'') of
        None \<Rightarrow> True
      | Some (YDict d) \<Rightarrow> True
      | _ \<Rightarrow> False)"

definition unaliased :: "document \<Rightarrow> bool" where
  "unaliased doc = (case root doc of YDict kvs \<Rightarrow> updatable kvs | _ \<Rightarrow> False)"

text \<open>A document that holds no tuple, which is one that reads back as it was written.\<close>

definition tuple_free :: "document \<Rightarrow> bool" where
  "tuple_free doc = (\<not> has_tuple (length (shared doc)) (shared doc) (root doc))"

subsection \<open>Auxiliary: the written dictionary, another notifier\<close>

text \<open>The top-level dictionary that the update of an unaliased document writes.\<close>

definition written :: "string \<Rightarrow> string \<Rightarrow> string \<Rightarrow> (yaml \<times> yaml) list \<Rightarrow> yaml" where
  "written tag stamp actor kvs =
     (let img = (case map_of kvs (YStr ''image'') of Some (YDict i) \<Rightarrow> i | _ \<Rightarrow> []);
          kvs1 = AList.update (YStr ''image'') (YDict (AList.update (YStr ''tag'') (YStr tag) img)) kvs;
          dep = (case map_of kvs (YStr ''deployment'') of Some (YDict d) \<Rightarrow> d | _ \<Rightarrow> [])
      in YDict (AList.update (YStr ''deployment'')
           (YDict (AList.update (YStr ''updatedBy'') (YStr actor)
                     (AList.update (YStr ''lastUpdated'') (YStr stamp) dep))) kvs1))"

text \<open>
  The same world with another webhook setting and another behaviour of the requests that
  carry no header, which are the notifier's.
\<close>

definition with_delivery ::
  "string option \<Rightarrow> (nat \<Rightarrow> string \<Rightarrow> yaml \<Rightarrow> http_result) \<Rightarrow> world \<Rightarrow> world" where
  "with_delivery hook slack w =
     w\<lparr>getenv := (getenv w)(''SLACK_WEBHOOK_URL'' := hook),
       http_post := \<lambda>n url headers body.
         if headers = [] then slack n url body else http_post w n url headers body\<rparr>"

subsection \<open>Concrete inputs\<close>

text \<open>
  A world in which every collaborator answers with success, a manifest, and a file system
  holding the catalog and the manifests of two environments. The examples below vary them.
\<close>

definition ok_result :: cmd_result where
  "ok_result = \<lparr>returncode = 0, stdout = ''ok'', stderr = []\<rparr>"

definition failed_result :: cmd_result where
  "failed_result = \<lparr>returncode = 1, stdout = ''out'', stderr = ''err''\<rparr>"

definition calm_world :: world where
  "calm_world =
     \<lparr>getenv = Map.empty,
      shell = (\<lambda>n cmd. Inr ok_result),
      getoutput = (\<lambda>n cmd. Inr ''0123456789abcdef0123456789abcdef01234567''),
      http_get = (\<lambda>n url timeout. Response 200 ''ok''),
      http_post = (\<lambda>n url headers body. Response 200 ''ok''),
      now_iso = (\<lambda>n. ''2024-01-01T00:00:00''),
      fmt_duration = (\<lambda>t0 t1. ''42'')\<rparr>"

definition catalog :: document where
  "catalog = \<lparr>root = YDict [(YStr ''kind'', YStr ''Component'')], shared = []\<rparr>"

definition sample_manifest :: document where
  "sample_manifest =
     \<lparr>root = YDict [(YStr ''replicas'', YInt 2),
                     (YStr ''image'', YDict [(YStr ''repository'', YStr ''user-api''),
                                             (YStr ''tag'', YStr ''old'')])],
      shared = []\<rparr>"

definition sample_files :: "string \<rightharpoonup> file_content" where
  "sample_files =
     [''catalog-info.yaml'' \<mapsto> Parsed catalog,
      ''deploy/staging/values.yaml'' \<mapsto> Parsed sample_manifest,
      ''deploy/production/values.yaml'' \<mapsto> Parsed sample_manifest]"

definition start :: state where
  "start = \<lparr>step = 0, trace = [], files = sample_files\<rparr>"

definition user_api :: "string \<Rightarrow> bool \<Rightarrow> pipeline" where
  "user_api env dry =
     \<lparr>service_name = ''user-api'', environment = env, dry_run = dry,
      config = catalog, deployment_start = 0\<rparr>"

definition scanner_finds :: world where
  "scanner_finds = calm_world\<lparr>shell := \<lambda>n cmd. Inr failed_result\<rparr>"

definition recovering :: world where
  "recovering =
     calm_world\<lparr>http_get := \<lambda>n url timeout.
       if n = 0 then Response 503 ''starting''
       else if n = 1 then Raises ''connection refused''
       else Response 200 ''ok''\<rparr>"

definition unhealthy :: world where
  "unhealthy = calm_world\<lparr>http_get := \<lambda>n url timeout. Response 503 ''down''\<rparr>"

definition with_argocd :: "world \<Rightarrow> world" where
  "with_argocd w =
     w\<lparr>getenv := (getenv w)(''ARGOCD_API_URL'' \<mapsto> ''https://argocd.company.com'',
                             ''ARGOCD_TOKEN'' \<mapsto> ''secret'')\<rparr>"

definition sync_rejected :: world where
  "sync_rejected =
     with_argocd (calm_world\<lparr>http_post := \<lambda>n url headers body. Response 403 ''denied''\<rparr>)"

definition cli :: args where
  "cli = \<lparr>arg_service = Some ''user-api'', arg_env = ''staging'', arg_dry_run = False\<rparr>"

text \<open>
  Worlds in which the service never gets healthy and the undo of the rollout succeeds,
  fails, or cannot be decoded; the last one has a webhook.
\<close>

definition undo_fails :: world where
  "undo_fails =
     unhealthy\<lparr>shell := \<lambda>n cmd.
       if cmd = ''kubectl rollout undo deployment/user-api -n staging'' then Inr failed_result
       else Inr ok_result\<rparr>"

definition undo_raises :: world where
  "undo_raises =
     unhealthy\<lparr>shell := \<lambda>n cmd.
       if cmd = ''kubectl rollout undo deployment/user-api -n staging''
       then Inl (UnicodeDecodeError ''invalid start byte'')
       else Inr ok_result,
       getenv := [''SLACK_WEBHOOK_URL'' \<mapsto> ''https://hooks.slack.com/services/T0'']\<rparr>"

definition push_fails :: world where
  "push_fails =
     calm_world\<lparr>shell := \<lambda>n cmd.
       if cmd = ''git push origin main'' then Inr failed_result else Inr ok_result\<rparr>"

definition later :: world where
  "later =
     calm_world\<lparr>now_iso := \<lambda>n. ''2024-02-02T12:00:00'',
                getenv := [''GITHUB_ACTOR'' \<mapsto> ''alice'']\<rparr>"

definition updated_manifest :: "string \<Rightarrow> string \<Rightarrow> document" where
  "updated_manifest stamp actor =
     \<lparr>root = YDict [(YStr ''replicas'', YInt 2),
                     (YStr ''image'', YDict [(YStr ''repository'', YStr ''user-api''),
                                             (YStr ''tag'', YStr ''abcd1234'')]),
                     (YStr ''deployment'', YDict [(YStr ''lastUpdated'', YStr stamp),
                                                  (YStr ''updatedBy'', YStr actor)])],
      shared = []\<rparr>"

definition slack_down :: world where
  "slack_down =
     calm_world\<lparr>getenv := [''SLACK_WEBHOOK_URL'' \<mapsto> ''https://hooks.slack.com/services/T0''],
                http_post := \<lambda>n url headers body. Response 500 ''server error''\<rparr>"

text \<open>
  A manifest in which an alias makes the image block and the defaults one dictionary:
  \<^verbatim>\<open>defaults: &img {repository: user-api, tag: old}\<close> and \<^verbatim>\<open>image: *img\<close>. And one
  with an ordered map, whose pairs are read as tuples.
\<close>

definition aliased_manifest :: document where
  "aliased_manifest =
     \<lparr>root = YDict [(YStr ''defaults'', YRef 0), (YStr ''image'', YRef 0)],
      shared = [(0, CDict [(YStr ''repository'', YStr ''user-api''),
                           (YStr ''tag'', YStr ''old'')])]\<rparr>"

definition aliased_start :: state where
  "aliased_start =
     start\<lparr>files := sample_files(''deploy/staging/values.yaml'' \<mapsto> Parsed aliased_manifest)\<rparr>"

definition omap_manifest :: document where
  "omap_manifest =
     \<lparr>root = YDict [(YStr ''image'', YDict [(YStr ''tag'', YStr ''old'')]),
                     (YStr ''order'', YList [YTuple [YStr ''first'', YInt 1]])],
      shared = []\<rparr>"

definition omap_start :: state where
  "omap_start =
     start\<lparr>files := sample_files(''deploy/staging/values.yaml'' \<mapsto> Parsed omap_manifest)\<rparr>"

text \<open>A registry with a port.\<close>

definition port_registry :: world where
  "port_registry = calm_world\<lparr>getenv := [''REGISTRY_URL'' \<mapsto> ''localhost:5000'']\<rparr>"

section \<open>Properties\<close>

subsection \<open>Splitting at a character\<close>

lemma split_on_nonempty: "split_on c s \<noteq> []"
  by (induction s) (auto split: list.splits)

lemma split_on_absent: "c \<notin> set s \<Longrightarrow> split_on c s = [s]"
  by (induction s) auto

lemma split_on_first: "c \<notin> set a \<Longrightarrow> split_on c (a @ c # b) = a # split_on c b"
  by (induction a) (auto split: list.splits)

lemma takeWhile_absent: "c \<notin> set b \<Longrightarrow> takeWhile (\<lambda>x. x \<noteq> c) b = b"
  by (induction b) auto

lemma takeWhile_first: "c \<notin> set a \<Longrightarrow> takeWhile (\<lambda>x. x \<noteq> c) (a @ c # b) = a"
  by (induction a) auto

lemma dropWhile_first: "c \<notin> set a \<Longrightarrow> dropWhile (\<lambda>x. x \<noteq> c) (a @ c # b) = c # b"
  by (induction a) auto

lemma split_on_second:
  assumes "c \<in> set s"
  shows "1 < length (split_on c s) \<and>
         split_on c s ! 1 = takeWhile (\<lambda>x. x \<noteq> c) (tl (dropWhile (\<lambda>x. x \<noteq> c) s))"
proof -
  obtain a b where s: "s = a @ c # b" and a: "c \<notin> set a"
    using assms by (meson split_list_first)
  show ?thesis
  proof (cases "c \<in> set b")
    case False
    then show ?thesis
      using a by (simp add: s split_on_first split_on_absent dropWhile_first takeWhile_absent)
  next
    case True
    then obtain b1 b2 where b: "b = b1 @ c # b2" and b1: "c \<notin> set b1"
      by (meson split_list_first)
    show ?thesis
      using a b1 unfolding s b
      by (simp add: split_on_first dropWhile_first takeWhile_first)
  qed
qed

subsection \<open>What the primitives do to the state\<close>

lemma emit_simps [simp]:
  "trace (emit e s) = trace s @ [e]" "step (emit e s) = step s" "files (emit e s) = files s"
  by (simp_all add: emit_def)

lemma print_simps [simp]:
  "trace (print t s) = trace s @ [Print t]" "step (print t s) = step s"
  "files (print t s) = files s"
  by (simp_all add: print_def)

lemma tick_simps [simp]:
  "trace (tick s) = trace s" "step (tick s) = Suc (step s)" "files (tick s) = files s"
  by (simp_all add: tick_def)

lemma write_file_simps [simp]:
  "trace (write_file path doc s) = trace s @ [FileWrite path doc]"
  "step (write_file path doc s) = step s"
  "files (write_file path doc s) = (files s)(path \<mapsto> reload doc)"
  by (simp_all add: write_file_def)

lemma run_command_dry:
  "dry_run p \<Longrightarrow>
   run_command w p cmd check s =
     (Inr (0, ''dry-run-output''), print (''[DRY RUN] Would execute: '' @ cmd) s)"
  by (simp add: run_command_def)

lemma run_command_real:
  "\<not> dry_run p \<Longrightarrow>
   snd (run_command w p cmd check s) = tick (emit (Exec cmd) s) \<and>
   (case shell w (step s) cmd of
      Inl e \<Rightarrow> fst (run_command w p cmd check s) = Inl e
    | Inr r \<Rightarrow>
        fst (run_command w p cmd check s) =
          Inr (returncode r, if check \<and> returncode r \<noteq> 0 then stderr r else stdout r))"
  by (simp add: run_command_def Let_def split: sum.splits)

lemma actions_simps [simp]:
  "actions [] = []" "actions (xs @ ys) = actions xs @ actions ys"
  "actions (Print t # xs) = actions xs"
  "actions (Exec c # xs) = Exec c # actions xs"
  "actions (HttpGet u n # xs) = HttpGet u n # actions xs"
  "actions (HttpPost u h b # xs) = HttpPost u h b # actions xs"
  "actions (Sleep n # xs) = Sleep n # actions xs"
  "actions (FileWrite f d # xs) = FileWrite f d # actions xs"
  by (simp_all add: actions_def)

subsection \<open>Security scan\<close>

text \<open>
  C3. A blocking finding is a non-zero exit status of the scanner, which the stage sees
  only when the command is really run. With a finding the stage fails in
  \<^verbatim>\<open>production\<close>; in \<^verbatim>\<open>staging\<close> and \<^verbatim>\<open>dev\<close> it succeeds and the last line it
  prints is the bypass note; without a finding (a dry run, or an exit status of zero) it
  succeeds in every environment, and the bypass note is not what it prints last. When
  the scanner cannot be run at all, there is no report and the exception leaves the stage.
\<close>

theorem security_scan_policy:
  fixes w p image_tag s
  defines "finding \<equiv> \<not> dry_run p \<and>
             (\<exists>res. shell w (step s) (scan_cmd image_tag) = Inr res \<and> returncode res \<noteq> 0)"
  defines "clean \<equiv> dry_run p \<or>
             (\<exists>res. shell w (step s) (scan_cmd image_tag) = Inr res \<and> returncode res = 0)"
  defines "r \<equiv> security_scan w p image_tag s"
  shows "(finding \<and> environment p = ''production'' \<longrightarrow> fst r = Inr False)
       \<and> (finding \<and> (environment p = ''staging'' \<or> environment p = ''dev'') \<longrightarrow>
            fst r = Inr True \<and> last (trace (snd r)) = Print bypass_note)
       \<and> (clean \<longrightarrow> fst r = Inr True \<and> Print bypass_note \<noteq> last (trace (snd r)))
       \<and> (\<forall>e. \<not> dry_run p \<and> shell w (step s) (scan_cmd image_tag) = Inl e \<longrightarrow> fst r = Inl e)"
  unfolding finding_def clean_def r_def
  by (auto simp: security_scan_def run_command_def Let_def bypass_note_def warning_sign_def
        check_mark_def)

theorem security_scan_policy_witness:
  "\<not> dry_run (user_api ''production'' False)
   \<and> shell scanner_finds (step start) (scan_cmd ''user-api:abcd1234'') = Inr failed_result
   \<and> returncode failed_result \<noteq> 0
   \<and> fst (security_scan scanner_finds (user_api ''production'' False) ''user-api:abcd1234'' start)
       = Inr False
   \<and> fst (security_scan scanner_finds (user_api ''staging'' False) ''user-api:abcd1234'' start)
       = Inr True
   \<and> fst (security_scan scanner_finds (user_api ''dev'' False) ''user-api:abcd1234'' start)
       = Inr True
   \<and> shell calm_world (step start) (scan_cmd ''user-api:abcd1234'') = Inr ok_result
   \<and> returncode ok_result = 0
   \<and> fst (security_scan calm_world (user_api ''production'' False) ''user-api:abcd1234'' start)
       = Inr True"
  using
    security_scan_policy [where w = scanner_finds and p = "user_api ''production'' False"
      and s = start and image_tag = "''user-api:abcd1234''"]
    security_scan_policy [where w = scanner_finds and p = "user_api ''staging'' False"
      and s = start and image_tag = "''user-api:abcd1234''"]
    security_scan_policy [where w = scanner_finds and p = "user_api ''dev'' False"
      and s = start and image_tag = "''user-api:abcd1234''"]
    security_scan_policy [where w = calm_world and p = "user_api ''production'' False"
      and s = start and image_tag = "''user-api:abcd1234''"]
  by (simp add: user_api_def scanner_finds_def calm_world_def failed_result_def ok_result_def)

subsection \<open>Sync trigger\<close>

text \<open>
  C8. When the endpoint or the token is unset or empty, the stage succeeds, prints one
  line and issues no request. Otherwise it issues exactly one POST, to the sync path of
  the application named service-environment, and succeeds exactly when the answer has
  status 200; in particular every answer outside 200..299 fails the stage.
\<close>

theorem trigger_argocd_sync_contract:
  fixes w p s
  defines "r \<equiv> trigger_argocd_sync w p s"
  shows "(falsy (getenv w ''ARGOCD_API_URL'') \<or> falsy (getenv w ''ARGOCD_TOKEN'') \<longrightarrow>
            fst r \<and> step (snd r) = step s \<and> files (snd r) = files s \<and>
            trace (snd r) = trace s @ [Print (warning_sign
                 @ ''  ArgoCD credentials not configured, skipping sync trigger'')])
       \<and> (\<forall>api token. getenv w ''ARGOCD_API_URL'' = Some api \<and> api \<noteq> [] \<and>
             getenv w ''ARGOCD_TOKEN'' = Some token \<and> token \<noteq> [] \<longrightarrow>
            (\<exists>note. trace (snd r) = trace s @
               [Print (cycle_arrows @ '' Triggering ArgoCD sync for: '' @ service_name p @ ''-''
                       @ environment p),
                HttpPost (api @ ''/api/v1/applications/'' @ service_name p @ ''-'' @ environment p
                          @ ''/sync'')
                  [(''Authorization'', ''Bearer '' @ token)]
                  (YDict [(YStr ''prune'', YBool False), (YStr ''dryRun'', YBool (dry_run p))]),
                Print note])
            \<and> (fst r \<longleftrightarrow> (\<exists>text. http_post w (step s)
                  (api @ ''/api/v1/applications/'' @ service_name p @ ''-'' @ environment p
                          @ ''/sync'')
                  [(''Authorization'', ''Bearer '' @ token)]
                  (YDict [(YStr ''prune'', YBool False), (YStr ''dryRun'', YBool (dry_run p))])
                   = Response 200 text))
            \<and> (\<forall>code text. http_post w (step s)
                  (api @ ''/api/v1/applications/'' @ service_name p @ ''-'' @ environment p
                          @ ''/sync'')
                  [(''Authorization'', ''Bearer '' @ token)]
                  (YDict [(YStr ''prune'', YBool False), (YStr ''dryRun'', YBool (dry_run p))])
                   = Response code text \<and> \<not> (200 \<le> code \<and> code < 300) \<longrightarrow> \<not> fst r))"
  unfolding r_def
  by (auto simp: trigger_argocd_sync_def falsy_def Let_def sync_url_def sync_headers_def
        sync_body_def app_name_def fmt_opt_def split: http_result.splits option.splits)

theorem trigger_argocd_sync_contract_witness:
  "falsy (getenv calm_world ''ARGOCD_API_URL'')
   \<and> fst (trigger_argocd_sync calm_world (user_api ''staging'' False) start)
   \<and> actions (trace (snd (trigger_argocd_sync calm_world (user_api ''staging'' False) start))) = []
   \<and> getenv sync_rejected ''ARGOCD_API_URL'' = Some ''https://argocd.company.com''
   \<and> getenv sync_rejected ''ARGOCD_TOKEN'' = Some ''secret''
   \<and> \<not> fst (trigger_argocd_sync sync_rejected (user_api ''staging'' False) start)
   \<and> actions (trace (snd (trigger_argocd_sync sync_rejected (user_api ''staging'' False) start))) =
       [HttpPost ''https://argocd.company.com/api/v1/applications/user-api-staging/sync''
          [(''Authorization'', ''Bearer secret'')]
          (YDict [(YStr ''prune'', YBool False), (YStr ''dryRun'', YBool False)])]"
proof -
  have env: "getenv sync_rejected ''ARGOCD_API_URL'' = Some ''https://argocd.company.com''
             \<and> getenv sync_rejected ''ARGOCD_TOKEN'' = Some ''secret''"
    by (simp add: sync_rejected_def with_argocd_def)
  have answer: "http_post sync_rejected n url headers body = Response 403 ''denied''"
    for n url headers body
    by (simp add: sync_rejected_def with_argocd_def calm_world_def)
  have unset: "falsy (getenv calm_world ''ARGOCD_API_URL'')"
    by (simp add: calm_world_def falsy_def)
  show ?thesis
    using env answer unset
      trigger_argocd_sync_contract [where w = calm_world and p = "user_api ''staging'' False"
        and s = start]
      trigger_argocd_sync_contract [where w = sync_rejected and p = "user_api ''staging'' False"
        and s = start]
    by (auto simp: user_api_def start_def)
qed

subsection \<open>Missing or malformed catalog\<close>

text \<open>
  C6. When a service name is given and the catalog file is absent, the constructor raises
  \<^verbatim>\<open>FileNotFoundError\<close>, which nobody catches: the process ends with a non-zero
  status and the state is untouched, so no stage ran, nothing was printed and no
  notification was posted. A malformed catalog ends the process the same way with the
  parser's error. The file is read once.
\<close>

theorem missing_catalog_aborts:
  assumes "\<not> falsy (arg_service a)"
  shows "(files s ''catalog-info.yaml'' = None \<longrightarrow>
            main w a s = (Uncaught (FileNotFoundError ''catalog-info.yaml not found''), s)
            \<and> exit_status (fst (main w a s)) \<noteq> 0)
       \<and> (\<forall>m. files s ''catalog-info.yaml'' = Some (Malformed m) \<longrightarrow>
            main w a s = (Uncaught (YAMLError m), s)
            \<and> exit_status (fst (main w a s)) \<noteq> 0)"
  using assms by (simp add: main_def init_def load_config_def)

theorem missing_catalog_aborts_witness:
  "\<not> falsy (arg_service cli)
   \<and> main calm_world cli (start\<lparr>files := Map.empty\<rparr>) =
       (Uncaught (FileNotFoundError ''catalog-info.yaml not found''), start\<lparr>files := Map.empty\<rparr>)
   \<and> main calm_world cli (start\<lparr>files := [''catalog-info.yaml'' \<mapsto> Malformed ''bad indent'']\<rparr>) =
       (Uncaught (YAMLError ''bad indent''),
        start\<lparr>files := [''catalog-info.yaml'' \<mapsto> Malformed ''bad indent'']\<rparr>)"
proof -
  have given: "\<not> falsy (arg_service cli)"
    by (simp add: cli_def falsy_def)
  show ?thesis
    using given
      missing_catalog_aborts [OF given, where w = calm_world and s = "start\<lparr>files := Map.empty\<rparr>"]
      missing_catalog_aborts [OF given, where w = calm_world
        and s = "start\<lparr>files := [''catalog-info.yaml'' \<mapsto> Malformed ''bad indent'']\<rparr>"]
    by simp
qed

subsection \<open>Health verification\<close>

lemma pause_simps [simp]:
  "step (pause m a s) = step s" "files (pause m a s) = files s"
  "trace (pause m a s) = trace s @ (if a < m - 1 then [Sleep 10] else [])"
  by (simp_all add: pause_def)

lemma verify_loop_result:
  "fst (verify_loop w p m atts s) \<longleftrightarrow>
     (\<exists>i<length atts. \<exists>text. http_get w (step s + i) (health_url p) 10 = Response 200 text)"
proof (induction atts arbitrary: s)
  case Nil
  then show ?case by simp
next
  case (Cons a atts)
  show ?case
  proof (cases "http_get w (step s) (health_url p) 10")
    case (Response code body)
    then show ?thesis
      by (auto simp: Cons.IH Let_def less_Suc_eq_0_disj)
  next
    case (Raises e)
    then show ?thesis
      by (auto simp: Cons.IH Let_def less_Suc_eq_0_disj)
  qed
qed

lemma verify_loop_exhausted:
  assumes "\<forall>i<length atts. \<forall>text. http_get w (step s + i) (health_url p) 10 \<noteq> Response 200 text"
  shows "step (snd (verify_loop w p m atts s)) = step s + length atts \<and>
         files (snd (verify_loop w p m atts s)) = files s \<and>
         actions (trace (snd (verify_loop w p m atts s))) =
           actions (trace s) @
           concat (map (\<lambda>a. HttpGet (health_url p) 10 # (if a < m - 1 then [Sleep 10] else [])) atts)"
  using assms
proof (induction atts arbitrary: s)
  case Nil
  then show ?case by simp
next
  case (Cons a atts)
  have tl: "\<forall>i<length atts. \<forall>text. http_get w (Suc (step s) + i) (health_url p) 10 \<noteq> Response 200 text"
    using Cons.prems by (metis Suc_less_eq add_Suc_shift length_Cons)
  have hd: "\<forall>text. http_get w (step s) (health_url p) 10 \<noteq> Response 200 text"
    using Cons.prems by (metis add.right_neutral length_Cons zero_less_Suc)
  show ?case
  proof (cases "http_get w (step s) (health_url p) 10")
    case (Response code body)
    with hd have "code \<noteq> 200" by auto
    then show ?thesis
      using Response tl by (simp add: Let_def Cons.IH)
  next
    case (Raises e)
    then show ?thesis
      using tl by (simp add: Let_def Cons.IH)
  qed
qed

lemma upt_5: "[0..<5] = [0, 1, 2, 3, 4]"
  by (simp add: upt_rec)

text \<open>
  C2. Outside dry-run mode the health check succeeds exactly when one of the five
  answers that the endpoint would give to the polls is a response with status 200; any
  other status and any network error only fail the attempt. When none of the five is
  healthy the stage fails after five requests with a sleep of 10 between consecutive
  requests, four in all.
\<close>

theorem verify_health_five_attempts:
  assumes "\<not> dry_run p"
  shows "(fst (verify_health w p s) \<longleftrightarrow>
            (\<exists>i<5. \<exists>text. http_get w (step s + i) (health_url p) 10 = Response 200 text))
       \<and> ((\<forall>i<5. \<forall>text. http_get w (step s + i) (health_url p) 10 \<noteq> Response 200 text) \<longrightarrow>
            \<not> fst (verify_health w p s) \<and>
            step (snd (verify_health w p s)) = step s + 5 \<and>
            actions (trace (snd (verify_health w p s))) =
              actions (trace s) @
              [HttpGet (health_url p) 10, Sleep 10, HttpGet (health_url p) 10, Sleep 10,
               HttpGet (health_url p) 10, Sleep 10, HttpGet (health_url p) 10, Sleep 10,
               HttpGet (health_url p) 10])"
proof -
  let ?s1 = "print (hospital @ '' Verifying service health: '' @ health_url p) s"
  have r: "fst (verify_health w p s) \<longleftrightarrow>
            (\<exists>i<5. \<exists>text. http_get w (step s + i) (health_url p) 10 = Response 200 text)"
    using assms verify_loop_result [of w p 5 "[0..<5]" ?s1]
    by (simp add: verify_health_def)
  have e: "(\<forall>i<5. \<forall>text. http_get w (step s + i) (health_url p) 10 \<noteq> Response 200 text) \<Longrightarrow>
            step (snd (verify_health w p s)) = step s + 5 \<and>
            actions (trace (snd (verify_health w p s))) =
              actions (trace s) @
              [HttpGet (health_url p) 10, Sleep 10, HttpGet (health_url p) 10, Sleep 10,
               HttpGet (health_url p) 10, Sleep 10, HttpGet (health_url p) 10, Sleep 10,
               HttpGet (health_url p) 10]"
    using assms verify_loop_exhausted [of "[0..<5]" w ?s1 p 5]
    by (simp add: verify_health_def) (simp add: upt_5)
  show ?thesis using r e by blast
qed

theorem verify_health_five_attempts_witness:
  "\<not> dry_run (user_api ''staging'' False)
   \<and> fst (verify_health recovering (user_api ''staging'' False) start)
   \<and> \<not> fst (verify_health unhealthy (user_api ''staging'' False) start)
   \<and> length (actions (trace (snd (verify_health unhealthy (user_api ''staging'' False) start)))) = 9"
proof -
  have real: "\<not> dry_run (user_api ''staging'' False)"
    by (simp add: user_api_def)
  have third: "\<exists>i<5. \<exists>text. http_get recovering (step start + i)
                 (health_url (user_api ''staging'' False)) 10 = Response 200 text"
    by (rule exI [of _ 2]) (simp add: recovering_def calm_world_def)
  have never: "\<forall>i<5. \<forall>text. http_get unhealthy (step start + i)
                 (health_url (user_api ''staging'' False)) 10 \<noteq> Response 200 text"
    by (simp add: unhealthy_def calm_world_def)
  show ?thesis
    using real third never
      verify_health_five_attempts [OF real, where w = recovering and s = start]
      verify_health_five_attempts [OF real, where w = unhealthy and s = start]
    by (simp add: start_def)
qed

subsection \<open>Evaluating the concrete inputs\<close>

lemma manifest_path_staging [simp]:
  "manifest_path (user_api ''staging'' dry) = ''deploy/staging/values.yaml''"
  by (simp add: manifest_path_def posix_path_def user_api_def)

lemmas world_defs = unhealthy_def undo_fails_def undo_raises_def calm_world_def ok_result_def
  failed_result_def user_api_def start_def sample_files_def sample_manifest_def catalog_def
  getenv_default_def

lemmas stage_defs = run_tests_def tests_def run_command_def build_image_def security_scan_def
  scan_cmd_def update_manifest_def image_tag_of_def index_def assign2_def assign_def
  getitem_def dict_get_def reload_def git_commands_def trigger_argocd_sync_def falsy_def
  wait_for_deployment_def rollout_status_cmd_def verify_health_def upt_5 health_url_def
  service_url_def announce_def manifest_path_def posix_path_def Let_def

lemma pair_snd: "fst x = a \<Longrightarrow> x = (a, snd x)"
  by (cases x) simp

subsection \<open>Rollback after a failed verification\<close>

text \<open>
  No stage before the rollback spawns the rollback command, and nothing after it does.
\<close>

lemma invocations_simps [simp]:
  "invocations c (print t s) = invocations c s"
  "invocations c (tick s) = invocations c s"
  "invocations c (write_file f d s) = invocations c s"
  "invocations c (pause m a s) = invocations c s"
  "invocations c (emit (HttpGet u n) s) = invocations c s"
  "invocations c (emit (HttpPost u h b) s) = invocations c s"
  "invocations c (emit (Exec cmd) s) = (if cmd = c then Suc (invocations c s) else invocations c s)"
  by (simp_all add: invocations_def)

lemma invocations_run_command:
  "invocations c (snd (run_command w p cmd check s)) =
     (if \<not> dry_run p \<and> cmd = c then Suc (invocations c s) else invocations c s)"
  by (simp add: run_command_def Let_def split: sum.splits)

lemma invocations_run_tests_loop:
  "\<forall>t\<in>set ts. snd t \<noteq> c \<Longrightarrow>
   invocations c (snd (run_tests_loop w p ts s)) = invocations c s"
proof (induction ts arbitrary: s)
  case Nil
  then show ?case by simp
next
  case (Cons t ts)
  obtain name cmd where t: "t = (name, cmd)" by (cases t)
  have one: "invocations c (snd (run_command w p cmd False (print (''  Running '' @ name @ ''...'') s)))
               = invocations c s"
    using Cons.prems by (simp add: invocations_run_command t)
  show ?case
  proof (cases "run_command w p cmd False (print (''  Running '' @ name @ ''...'') s)")
    case (Pair r s2)
    with one have s2: "invocations c s2 = invocations c s" by simp
    show ?thesis
      using Cons s2 unfolding t
      by (simp only: run_tests_loop.simps Let_def Pair) (auto split: sum.splits)
  qed
qed

lemma invocations_announce [simp]: "invocations c (announce p s) = invocations c s"
  by (simp add: announce_def)

lemma not_rollback_cmd [simp]:
  "\<forall>t\<in>set tests. snd t \<noteq> rollback_cmd p"
  "\<forall>c\<in>set (git_commands p x). c \<noteq> rollback_cmd p"
  by (simp_all add: rollback_cmd_def tests_def git_commands_def)

lemma invocations_run_tests:
  "invocations (rollback_cmd p) (snd (run_tests w p s)) = invocations (rollback_cmd p) s"
  by (simp add: run_tests_def invocations_run_tests_loop)

text \<open>A stage that runs one command after another: each step keeps the count.\<close>

lemma invocations_step:
  assumes "cmd \<noteq> c"
  shows "run_command w p cmd check s = (r, s') \<Longrightarrow> invocations c s' = invocations c s"
  using invocations_run_command [of c w p cmd check s] assms by simp

lemma invocations_build_image:
  "invocations (rollback_cmd p) (snd (build_image w p s)) = invocations (rollback_cmd p) s"
  by (auto simp: build_image_def Let_def rollback_cmd_def split: sum.splits prod.splits
        dest!: invocations_step [where c = "''kubectl rollout undo deployment/'' @ service_name p @ '' -n '' @ environment p", rotated])

lemma invocations_security_scan:
  "invocations (rollback_cmd p) (snd (security_scan w p x s)) = invocations (rollback_cmd p) s"
  by (auto simp: security_scan_def Let_def rollback_cmd_def scan_cmd_def
        split: sum.splits prod.splits
        dest!: invocations_step [where c = "''kubectl rollout undo deployment/'' @ service_name p @ '' -n '' @ environment p", rotated])

lemma invocations_run_each:
  "\<forall>c\<in>set cmds. c \<noteq> c0 \<Longrightarrow> invocations c0 (snd (run_each w p cmds s)) = invocations c0 s"
proof (induction cmds arbitrary: s)
  case Nil
  then show ?case by simp
next
  case (Cons cmd cmds)
  show ?case
  proof (cases "run_command w p cmd True s")
    case (Pair r s2)
    have "invocations c0 s2 = invocations c0 s"
      using invocations_run_command [of c0 w p cmd True s] Cons.prems Pair by simp
    then show ?thesis
      using Cons Pair by (auto split: sum.splits)
  qed
qed

lemma invocations_update_manifest:
  "invocations (rollback_cmd p) (snd (update_manifest w p x s)) = invocations (rollback_cmd p) s"
proof -
  have each: "invocations (rollback_cmd p) s4 = invocations (rollback_cmd p) s3"
    if "run_each w p (git_commands p t) s3 = (r, s4)" for t s3 r s4
    using invocations_run_each [of "git_commands p t" "rollback_cmd p" w p s3] that by simp
  show ?thesis
    by (auto simp: update_manifest_def Let_def
          split: option.splits file_content.splits sum.splits prod.splits dest!: each)
qed

lemma invocations_trigger:
  "invocations c (snd (trigger_argocd_sync w p s)) = invocations c s"
  by (simp add: trigger_argocd_sync_def Let_def split: http_result.splits)

lemma invocations_verify_loop:
  "invocations c (snd (verify_loop w p m atts s)) = invocations c s"
  by (induction atts arbitrary: s) (simp_all add: Let_def split: http_result.splits)

lemma invocations_wait:
  "invocations (rollback_cmd p) (snd (wait_for_deployment w p n s)) = invocations (rollback_cmd p) s"
  by (simp add: wait_for_deployment_def verify_health_def Let_def case_prod_beta
        invocations_run_command invocations_verify_loop rollback_cmd_def rollout_status_cmd_def
        split: sum.splits)

lemma invocations_send_notification:
  "invocations c (send_notification w p ok msg s) = invocations c s"
  by (simp add: send_notification_def Let_def split: http_result.splits)

lemma invocations_deploy_error:
  "invocations c (snd (deploy_error w p e s)) = invocations c s"
  by (simp add: deploy_error_def Let_def invocations_send_notification)

lemma invocations_rollback:
  "invocations (rollback_cmd p) (snd (rollback w p s)) =
     (if dry_run p then invocations (rollback_cmd p) s else Suc (invocations (rollback_cmd p) s))"
proof (cases "run_command w p (rollback_cmd p) False (print (back_arrow @ '' Initiating rollback...'') s)")
  case (Pair r s2)
  then have "invocations (rollback_cmd p) s2 =
     (if dry_run p then invocations (rollback_cmd p) s else Suc (invocations (rollback_cmd p) s))"
    using invocations_run_command [of "rollback_cmd p" w p "rollback_cmd p" False
        "print (back_arrow @ '' Initiating rollback...'') s"]
    by simp
  then show ?thesis
    using Pair by (auto simp: rollback_def Let_def split: sum.splits)
qed

lemma wait_fails_real: "wait_for_deployment w p n s = (Inr False, s') \<Longrightarrow> \<not> dry_run p"
  by (auto simp: wait_for_deployment_def Let_def)

text \<open>
  C1, as the claim states it, fails: the reported cause does not always remain the
  verification failure. When the command of the rollback raises (here its output cannot be
  decoded), the handler of \<^verbatim>\<open>deploy\<close> catches the exception and the notification
  sent is the one of a deployment error. The run below reaches the verification, which
  fails, and spawns the rollback once.
\<close>

theorem raising_rollback_changes_reported_cause:
  "fst (wait_for_deployment undo_raises (user_api ''staging'' False) 600
          (snd (trigger_argocd_sync undo_raises (user_api ''staging'' False)
            (snd (update_manifest undo_raises (user_api ''staging'' False)
                    ''registry.company.com/user-api:01234567''
              (snd (security_scan undo_raises (user_api ''staging'' False)
                      ''registry.company.com/user-api:01234567''
                (snd (build_image undo_raises (user_api ''staging'' False)
                  (snd (run_tests undo_raises (user_api ''staging'' False)
                    (announce (user_api ''staging'' False) start)))))))))))) = Inr False
   \<and> fst (deploy undo_raises (user_api ''staging'' False) start) = False
   \<and> invocations (rollback_cmd (user_api ''staging'' False))
        (snd (deploy undo_raises (user_api ''staging'' False) start)) = 1
   \<and> last (trace (snd (deploy undo_raises (user_api ''staging'' False) start))) =
       HttpPost ''https://hooks.slack.com/services/T0'' []
         (payload (user_api ''staging'' False) False ''42''
            ''Deployment error: invalid start byte'')
   \<and> last (trace (snd (deploy undo_raises (user_api ''staging'' False) start))) \<noteq>
       HttpPost ''https://hooks.slack.com/services/T0'' []
         (payload (user_api ''staging'' False) False ''42'' ''Deployment failed, rolled back'')"
  by (simp add: stage_defs world_defs deploy_def deploy_error_def rollback_def rollback_cmd_def
        send_notification_def fmt_opt_def invocations_def payload_def slack_field_def
        case_prod_beta)

text \<open>
  C1, amended. Take any run that reaches the verification and in which the verification
  returns failure. Then \<^verbatim>\<open>deploy\<close> returns false whether the rollback succeeds, fails
  or raises; the rollback command was not spawned before the verification failed and is
  spawned exactly once in the whole run. When the rollback returns, with whatever result,
  the last step is the notification with the message
  \<^verbatim>\<open>Deployment failed, rolled back\<close>; when it raises, the last steps are those of the
  handler, which reports the exception.
\<close>

theorem verification_failure_rolls_back_once:
  assumes tests: "run_tests w p (announce p s) = (Inr True, s1)"
      and build: "build_image w p s1 = (Inr image_tag, s2)"
      and scan: "security_scan w p image_tag s2 = (Inr True, s3)"
      and manifest: "update_manifest w p image_tag s3 = (Inr (), s4)"
      and sync: "trigger_argocd_sync w p s4 = (True, s5)"
      and verify: "wait_for_deployment w p 600 s5 = (Inr False, s6)"
  shows "fst (deploy w p s) = False
       \<and> invocations (rollback_cmd p) s6 = invocations (rollback_cmd p) s
       \<and> invocations (rollback_cmd p) (snd (deploy w p s)) = invocations (rollback_cmd p) s + 1
       \<and> (\<forall>ok s7.
            rollback w p (print (warning_sign
              @ ''  Deployment verification failed, initiating rollback...'') s6) = (Inr ok, s7) \<longrightarrow>
            deploy w p s =
              (False, send_notification w p False ''Deployment failed, rolled back'' s7))
       \<and> (\<forall>e s7.
            rollback w p (print (warning_sign
              @ ''  Deployment verification failed, initiating rollback...'') s6) = (Inl e, s7) \<longrightarrow>
            deploy w p s =
              (False, send_notification w p False (''Deployment error: '' @ exn_str e)
                 (print (newline @ cross_mark @ '' Deployment failed with error: '' @ exn_str e)
                    s7)))"
proof -
  let ?s6' = "print (warning_sign @ ''  Deployment verification failed, initiating rollback...'') s6"
  obtain r s7 where rb: "rollback w p ?s6' = (r, s7)"
    by (cases "rollback w p ?s6'")
  have d: "deploy w p s =
             (case r of
                Inl e \<Rightarrow> deploy_error w p e s7
              | Inr ok \<Rightarrow>
                  (False, send_notification w p False ''Deployment failed, rolled back'' s7))"
    by (simp add: deploy_def assms rb Let_def split: sum.splits)
  have real: "\<not> dry_run p" using verify by (rule wait_fails_real)
  have "invocations (rollback_cmd p) s1 = invocations (rollback_cmd p) s"
    using invocations_run_tests [of p w "announce p s"] by (simp add: tests)
  moreover have "invocations (rollback_cmd p) s2 = invocations (rollback_cmd p) s1"
    using invocations_build_image [of p w s1] by (simp add: build)
  moreover have "invocations (rollback_cmd p) s3 = invocations (rollback_cmd p) s2"
    using invocations_security_scan [of p w image_tag s2] by (simp add: scan)
  moreover have "invocations (rollback_cmd p) s4 = invocations (rollback_cmd p) s3"
    using invocations_update_manifest [of p w image_tag s3] by (simp add: manifest)
  moreover have "invocations (rollback_cmd p) s5 = invocations (rollback_cmd p) s4"
    using invocations_trigger [of "rollback_cmd p" w p s4] by (simp add: sync)
  moreover have "invocations (rollback_cmd p) s6 = invocations (rollback_cmd p) s5"
    using invocations_wait [of p w 600 s5] by (simp add: verify)
  ultimately have before: "invocations (rollback_cmd p) s6 = invocations (rollback_cmd p) s"
    by simp
  have s7: "invocations (rollback_cmd p) s7 = Suc (invocations (rollback_cmd p) s)"
    using invocations_rollback [of p w ?s6'] real before by (simp add: rb)
  have after: "invocations (rollback_cmd p) (snd (deploy w p s)) = invocations (rollback_cmd p) s + 1"
    by (simp add: d s7 invocations_send_notification invocations_deploy_error split: sum.splits)
  have failed: "fst (deploy w p s) = False"
    by (simp add: d deploy_error_def Let_def split: sum.splits)
  have ret: "deploy w p s =
              (False, send_notification w p False ''Deployment failed, rolled back'' s7')"
    if "rollback w p ?s6' = (Inr ok, s7')" for ok s7'
    using that rb d by simp
  have exc: "deploy w p s =
              (False, send_notification w p False (''Deployment error: '' @ exn_str e)
                 (print (newline @ cross_mark @ '' Deployment failed with error: '' @ exn_str e)
                    s7'))"
    if "rollback w p ?s6' = (Inl e, s7')" for e s7'
    using that rb d by (simp add: deploy_error_def Let_def)
  show ?thesis
    using failed before after ret exc by blast
qed

theorem verification_failure_rolls_back_once_witness:
  "fst (deploy undo_fails (user_api ''staging'' False) start) = False
   \<and> invocations (rollback_cmd (user_api ''staging'' False))
        (snd (deploy undo_fails (user_api ''staging'' False) start)) = 1
   \<and> fst (rollback undo_fails (user_api ''staging'' False) start) = Inr False
   \<and> fst (deploy undo_raises (user_api ''staging'' False) start) = False
   \<and> invocations (rollback_cmd (user_api ''staging'' False))
        (snd (deploy undo_raises (user_api ''staging'' False) start)) = 1
   \<and> fst (rollback undo_raises (user_api ''staging'' False) start) =
       Inl (UnicodeDecodeError ''invalid start byte'')"
proof -
  let ?p = "user_api ''staging'' False"
  let ?tag = "''registry.company.com/user-api:01234567''"
  let ?note = "warning_sign @ ''  Deployment verification failed, initiating rollback...''"

  have run_ko: "fst (deploy undo_fails ?p start) = False \<and>
      invocations (rollback_cmd ?p) (snd (deploy undo_fails ?p start)) = 1 \<and>
      (\<forall>ok s7. rollback undo_fails ?p (print ?note (snd (wait_for_deployment undo_fails ?p 600
            (snd (trigger_argocd_sync undo_fails ?p (snd (update_manifest undo_fails ?p ?tag
              (snd (security_scan undo_fails ?p ?tag (snd (build_image undo_fails ?p
                (snd (run_tests undo_fails ?p (announce ?p start)))))))))))))) = (Inr ok, s7) \<longrightarrow>
          deploy undo_fails ?p start =
            (False, send_notification undo_fails ?p False ''Deployment failed, rolled back'' s7)) \<and>
      (\<forall>e s7. rollback undo_fails ?p (print ?note (snd (wait_for_deployment undo_fails ?p 600
            (snd (trigger_argocd_sync undo_fails ?p (snd (update_manifest undo_fails ?p ?tag
              (snd (security_scan undo_fails ?p ?tag (snd (build_image undo_fails ?p
                (snd (run_tests undo_fails ?p (announce ?p start)))))))))))))) = (Inl e, s7) \<longrightarrow>
          deploy undo_fails ?p start =
            (False, send_notification undo_fails ?p False (''Deployment error: '' @ exn_str e)
               (print (newline @ cross_mark @ '' Deployment failed with error: '' @ exn_str e) s7)))"
  proof -
    let ?w = undo_fails
    let ?s1 = "snd (run_tests ?w ?p (announce ?p start))"
    let ?s2 = "snd (build_image ?w ?p ?s1)"
    let ?s3 = "snd (security_scan ?w ?p ?tag ?s2)"
    let ?s4 = "snd (update_manifest ?w ?p ?tag ?s3)"
    let ?s5 = "snd (trigger_argocd_sync ?w ?p ?s4)"
    let ?s6 = "snd (wait_for_deployment ?w ?p 600 ?s5)"
    have tests: "run_tests ?w ?p (announce ?p start) = (Inr True, ?s1)"
      by (rule pair_snd) (simp add: stage_defs world_defs)
    have build: "build_image ?w ?p ?s1 = (Inr ?tag, ?s2)"
      by (rule pair_snd) (simp add: stage_defs world_defs)
    have scan: "security_scan ?w ?p ?tag ?s2 = (Inr True, ?s3)"
      by (rule pair_snd) (simp add: stage_defs world_defs)
    have manifest: "update_manifest ?w ?p ?tag ?s3 = (Inr (), ?s4)"
      by (rule pair_snd) (simp add: stage_defs world_defs)
    have sync: "trigger_argocd_sync ?w ?p ?s4 = (True, ?s5)"
      by (rule pair_snd) (simp add: stage_defs world_defs)
    have verify: "wait_for_deployment ?w ?p 600 ?s5 = (Inr False, ?s6)"
      by (rule pair_snd) (simp add: stage_defs world_defs)
    note fact = verification_failure_rolls_back_once [OF tests build scan manifest sync verify]
    have none: "invocations (rollback_cmd ?p) start = 0"
      by (simp add: invocations_def start_def)
    show ?thesis
      using fact none by (simp only: add_0 One_nat_def Suc_eq_plus1 [symmetric]) blast
  qed

  have run_exc: "fst (deploy undo_raises ?p start) = False \<and>
      invocations (rollback_cmd ?p) (snd (deploy undo_raises ?p start)) = 1 \<and>
      (\<forall>ok s7. rollback undo_raises ?p (print ?note (snd (wait_for_deployment undo_raises ?p 600
            (snd (trigger_argocd_sync undo_raises ?p (snd (update_manifest undo_raises ?p ?tag
              (snd (security_scan undo_raises ?p ?tag (snd (build_image undo_raises ?p
                (snd (run_tests undo_raises ?p (announce ?p start)))))))))))))) = (Inr ok, s7) \<longrightarrow>
          deploy undo_raises ?p start =
            (False, send_notification undo_raises ?p False ''Deployment failed, rolled back'' s7)) \<and>
      (\<forall>e s7. rollback undo_raises ?p (print ?note (snd (wait_for_deployment undo_raises ?p 600
            (snd (trigger_argocd_sync undo_raises ?p (snd (update_manifest undo_raises ?p ?tag
              (snd (security_scan undo_raises ?p ?tag (snd (build_image undo_raises ?p
                (snd (run_tests undo_raises ?p (announce ?p start)))))))))))))) = (Inl e, s7) \<longrightarrow>
          deploy undo_raises ?p start =
            (False, send_notification undo_raises ?p False (''Deployment error: '' @ exn_str e)
               (print (newline @ cross_mark @ '' Deployment failed with error: '' @ exn_str e) s7)))"
  proof -
    let ?w = undo_raises
    let ?s1 = "snd (run_tests ?w ?p (announce ?p start))"
    let ?s2 = "snd (build_image ?w ?p ?s1)"
    let ?s3 = "snd (security_scan ?w ?p ?tag ?s2)"
    let ?s4 = "snd (update_manifest ?w ?p ?tag ?s3)"
    let ?s5 = "snd (trigger_argocd_sync ?w ?p ?s4)"
    let ?s6 = "snd (wait_for_deployment ?w ?p 600 ?s5)"
    have tests: "run_tests ?w ?p (announce ?p start) = (Inr True, ?s1)"
      by (rule pair_snd) (simp add: stage_defs world_defs)
    have build: "build_image ?w ?p ?s1 = (Inr ?tag, ?s2)"
      by (rule pair_snd) (simp add: stage_defs world_defs)
    have scan: "security_scan ?w ?p ?tag ?s2 = (Inr True, ?s3)"
      by (rule pair_snd) (simp add: stage_defs world_defs)
    have manifest: "update_manifest ?w ?p ?tag ?s3 = (Inr (), ?s4)"
      by (rule pair_snd) (simp add: stage_defs world_defs)
    have sync: "trigger_argocd_sync ?w ?p ?s4 = (True, ?s5)"
      by (rule pair_snd) (simp add: stage_defs world_defs)
    have verify: "wait_for_deployment ?w ?p 600 ?s5 = (Inr False, ?s6)"
      by (rule pair_snd) (simp add: stage_defs world_defs)
    note fact = verification_failure_rolls_back_once [OF tests build scan manifest sync verify]
    have none: "invocations (rollback_cmd ?p) start = 0"
      by (simp add: invocations_def start_def)
    show ?thesis
      using fact none by (simp only: add_0 One_nat_def Suc_eq_plus1 [symmetric]) blast
  qed

  have ko: "fst (rollback undo_fails ?p start) = Inr False"
    by (simp add: rollback_def rollback_cmd_def stage_defs world_defs)
  have exc: "fst (rollback undo_raises ?p start) = Inl (UnicodeDecodeError ''invalid start byte'')"
    by (simp add: rollback_def rollback_cmd_def stage_defs world_defs)
  show ?thesis
    using run_ko run_exc ko exc by simp
qed

subsection \<open>Assignments in a document\<close>

lemma setitem_Inr:
  "setitem h y k v = Inr (y', h') \<longleftrightarrow>
     (\<exists>kvs. y = YDict kvs \<and> y' = YDict (AList.update (YStr k) v kvs) \<and> h' = h) \<or>
     (\<exists>a kvs. y = YRef a \<and> map_of h a = Some (CDict kvs) \<and> y' = YRef a \<and>
        h' = AList.update a (CDict (AList.update (YStr k) v kvs)) h)"
  by (cases y) (auto split: option.splits cell.splits)

text \<open>Writing one key of an object changes no other key of any object.\<close>

lemma getitem_other_key:
  assumes "setitem h y k v = Inr (y', h')" and "k \<noteq> kk"
  shows "getitem h' x kk = getitem h x kk"
  using assms
  by (cases x) (auto simp: setitem_Inr getitem_def update_conv' split: option.splits if_splits)

lemma getitem_written:
  assumes "setitem h y k v = Inr (y', h')"
  shows "getitem h' y' kk = (if kk = k then Inr v else getitem h y kk)"
  using assms
  by (auto simp: setitem_Inr getitem_def update_conv' split: option.splits)

lemma assign_Inr:
  "assign doc k v = Inr doc' \<longleftrightarrow>
     setitem (shared doc) (root doc) k v = Inr (root doc', shared doc')"
  by (cases doc') (auto simp: assign_def split: sum.splits)

lemma assign2_Inr:
  "assign2 doc k1 k2 v = Inr doc' \<longleftrightarrow>
     (\<exists>x x' h1. getitem (shared doc) (root doc) k1 = Inr x \<and>
        setitem (shared doc) x k2 v = Inr (x', h1) \<and>
        setitem h1 (root doc) k1 x' = Inr (root doc', shared doc'))"
  by (auto simp: assign2_def assign_Inr split: sum.splits)

lemma assign_keeps_field2:
  assumes "assign doc k v = Inr doc'" and "k \<noteq> k1" and "k \<noteq> k2"
  shows "field2 doc' k1 k2 = field2 doc k1 k2"
proof -
  from assms(1) have s: "setitem (shared doc) (root doc) k v = Inr (root doc', shared doc')"
    by (simp add: assign_Inr)
  have outer: "getitem (shared doc') (root doc') k1 = getitem (shared doc) (root doc) k1"
    using getitem_written [OF s, of k1] assms(2) by simp
  have inner: "getitem (shared doc') x k2 = getitem (shared doc) x k2" for x
    using getitem_other_key [OF s assms(3)] .
  show ?thesis
    by (simp add: field2_def outer inner split: sum.splits)
qed

lemma assign2_keeps_field2:
  assumes "assign2 doc ka kb v = Inr doc'"
      and "ka \<noteq> k1" and "kb \<noteq> k1" and "ka \<noteq> k2" and "kb \<noteq> k2"
  shows "field2 doc' k1 k2 = field2 doc k1 k2"
proof -
  from assms(1) obtain x x' h1 where
        g: "getitem (shared doc) (root doc) ka = Inr x"
    and s1: "setitem (shared doc) x kb v = Inr (x', h1)"
    and s2: "setitem h1 (root doc) ka x' = Inr (root doc', shared doc')"
    unfolding assign2_Inr by blast
  have outer: "getitem (shared doc') (root doc') k1 = getitem (shared doc) (root doc) k1"
    using getitem_written [OF s2, of k1] getitem_other_key [OF s1 assms(3), of "root doc"] assms(2)
    by simp
  have inner: "getitem (shared doc') y k2 = getitem (shared doc) y k2" for y
    using getitem_other_key [OF s2 assms(4), of y] getitem_other_key [OF s1 assms(5), of y]
    by simp
  show ?thesis
    by (simp add: field2_def outer inner split: sum.splits)
qed

lemma assign2_sets_field2:
  assumes "assign2 doc k1 k2 v = Inr doc'" and "k1 \<noteq> k2"
  shows "field2 doc' k1 k2 = Inr v"
proof -
  from assms(1) obtain x x' h1 where
        s1: "setitem (shared doc) x k2 v = Inr (x', h1)"
    and s2: "setitem h1 (root doc) k1 x' = Inr (root doc', shared doc')"
    unfolding assign2_Inr by blast
  have outer: "getitem (shared doc') (root doc') k1 = Inr x'"
    using getitem_written [OF s2, of k1] by simp
  have "getitem (shared doc') x' k2 = getitem h1 x' k2"
    using getitem_other_key [OF s2 assms(2), of x'] .
  also have "\<dots> = Inr v"
    using getitem_written [OF s1, of k2] by simp
  finally show ?thesis
    by (simp add: field2_def outer)
qed

text \<open>The five assignments of the update, one after the other.\<close>

lemma tag_after_update:
  assumes a1: "assign2 doc ''image'' ''tag'' (YStr tag) = Inr v1"
      and s2: "assign v1 ''deployment'' d = Inr v2"
      and a3: "assign2 v2 ''deployment'' ''lastUpdated'' stamp = Inr v3"
      and a4: "assign2 v3 ''deployment'' ''updatedBy'' actor = Inr v4"
  shows "field2 v4 ''image'' ''tag'' = Inr (YStr tag)"
proof -
  have "field2 v1 ''image'' ''tag'' = Inr (YStr tag)"
    using assign2_sets_field2 [OF a1] by simp
  moreover have "field2 v2 ''image'' ''tag'' = field2 v1 ''image'' ''tag''"
    using assign_keeps_field2 [OF s2] by simp
  moreover have "field2 v3 ''image'' ''tag'' = field2 v2 ''image'' ''tag''"
    using assign2_keeps_field2 [OF a3] by simp
  moreover have "field2 v4 ''image'' ''tag'' = field2 v3 ''image'' ''tag''"
    using assign2_keeps_field2 [OF a4] by simp
  ultimately show ?thesis by simp
qed

subsection \<open>The git commands of the update\<close>

lemma run_command_files [simp]: "files (snd (run_command w p cmd check s)) = files s"
  by (simp add: run_command_def Let_def split: sum.splits)

lemma run_command_actions:
  "actions (trace (snd (run_command w p cmd check s))) =
     actions (trace s) @ (if dry_run p then [] else [Exec cmd])"
  by (simp add: run_command_def Let_def split: sum.splits)

lemma run_command_raises:
  "fst (run_command w p cmd check s) = Inl e \<Longrightarrow> \<exists>n c. shell w n c = Inl e"
  by (auto simp: run_command_def Let_def split: sum.splits if_splits)

lemma run_each_files [simp]: "files (snd (run_each w p cmds s)) = files s"
proof (induction cmds arbitrary: s)
  case Nil
  then show ?case by simp
next
  case (Cons cmd cmds)
  show ?case
    using Cons [of "snd (run_command w p cmd True s)"] run_command_files [of w p cmd True s]
    by (simp add: case_prod_beta split: sum.splits)
qed

lemma run_each_raises:
  "fst (run_each w p cmds s) = Inl e \<Longrightarrow> \<exists>n c. shell w n c = Inl e"
proof (induction cmds arbitrary: s)
  case Nil
  then show ?case by simp
next
  case (Cons cmd cmds)
  then show ?case
    using run_command_raises [of w p cmd True s e]
    by (auto simp: case_prod_beta split: sum.splits)
qed

lemma run_each_actions:
  "fst (run_each w p cmds s) = Inr () \<Longrightarrow>
   actions (trace (snd (run_each w p cmds s))) =
     actions (trace s) @ (if dry_run p then [] else map Exec cmds)"
proof (induction cmds arbitrary: s)
  case Nil
  then show ?case by simp
next
  case (Cons cmd cmds)
  then show ?case
    using run_command_actions [of w p cmd True s]
    by (auto simp: case_prod_beta split: sum.splits)
qed

subsection \<open>The tag written into the manifest\<close>

lemma image_tag_of_total: "\<exists>tag. image_tag_of t = Inr tag"
  using split_on_second [of "CHR '':''" t] by (simp add: image_tag_of_def index_def)

text \<open>What a successful update went through.\<close>

lemma update_manifest_returned:
  assumes "update_manifest w p image_tag s = (Inr (), s')"
  obtains doc tag v1 d v2 v3 v4 where
        "files s (manifest_path p) = Some (Parsed doc)"
    and "image_tag_of image_tag = Inr tag"
    and "assign2 doc ''image'' ''tag'' (YStr tag) = Inr v1"
    and "dict_get (shared v1) (root v1) ''deployment'' (YDict []) = Inr d"
    and "assign v1 ''deployment'' d = Inr v2"
    and "assign2 v2 ''deployment'' ''lastUpdated'' (YStr (now_iso w (step s))) = Inr v3"
    and "assign2 v3 ''deployment'' ''updatedBy''
               (YStr (getenv_default w ''GITHUB_ACTOR'' ''unknown'')) = Inr v4"
    and "fst (run_each w p (git_commands p tag)
               (write_file (manifest_path p) v4
                  (tick (print (memo @ '' Updating manifest: '' @ manifest_path p) s)))) = Inr ()"
    and "s' = print (check_mark @ '' Manifest updated and pushed'')
               (snd (run_each w p (git_commands p tag)
                  (write_file (manifest_path p) v4
                     (tick (print (memo @ '' Updating manifest: '' @ manifest_path p) s)))))"
  using assms
  by (auto simp: update_manifest_def Let_def case_prod_beta
        split: option.splits file_content.splits sum.splits)

text \<open>
  C10. When the update of the manifest returns, it has written the file once, and in the
  document it wrote the value of \<^verbatim>\<open>values['image']['tag']\<close> is the tag taken from the
  image reference: the second piece of the reference split at colons, which is the text
  between its first and its second colon (or the end), when the reference contains a
  colon, and \<^verbatim>\<open>latest\<close> when it does not. This holds of every manifest, aliased or
  not.
\<close>

theorem written_tag_is_second_piece:
  assumes "update_manifest w p image_tag s = (Inr (), s')"
  shows "\<exists>doc' tag.
           tag = (if CHR '':'' \<in> set image_tag
                  then takeWhile (\<lambda>x. x \<noteq> CHR '':'')
                         (tl (dropWhile (\<lambda>x. x \<noteq> CHR '':'') image_tag))
                  else ''latest'')
         \<and> (CHR '':'' \<in> set image_tag \<longrightarrow>
              1 < length (split_on CHR '':'' image_tag) \<and> tag = split_on CHR '':'' image_tag ! 1)
         \<and> actions (trace s') =
             actions (trace s) @ FileWrite (manifest_path p) doc'
               # (if dry_run p then [] else map Exec (git_commands p tag))
         \<and> files s' = (files s)(manifest_path p \<mapsto> reload doc')
         \<and> field2 doc' ''image'' ''tag'' = Inr (YStr tag)"
proof -
  from assms obtain doc tag v1 d v2 v3 v4 where
        t: "image_tag_of image_tag = Inr tag"
    and a1: "assign2 doc ''image'' ''tag'' (YStr tag) = Inr v1"
    and s2: "assign v1 ''deployment'' d = Inr v2"
    and a3: "assign2 v2 ''deployment'' ''lastUpdated'' (YStr (now_iso w (step s))) = Inr v3"
    and a4: "assign2 v3 ''deployment'' ''updatedBy''
               (YStr (getenv_default w ''GITHUB_ACTOR'' ''unknown'')) = Inr v4"
    and git: "fst (run_each w p (git_commands p tag)
               (write_file (manifest_path p) v4
                  (tick (print (memo @ '' Updating manifest: '' @ manifest_path p) s)))) = Inr ()"
    and s': "s' = print (check_mark @ '' Manifest updated and pushed'')
               (snd (run_each w p (git_commands p tag)
                  (write_file (manifest_path p) v4
                     (tick (print (memo @ '' Updating manifest: '' @ manifest_path p) s)))))"
    by (rule update_manifest_returned)
  have tag: "tag = (if CHR '':'' \<in> set image_tag
                  then takeWhile (\<lambda>x. x \<noteq> CHR '':'')
                         (tl (dropWhile (\<lambda>x. x \<noteq> CHR '':'') image_tag))
                  else ''latest'')"
    using t split_on_second [of "CHR '':''" image_tag]
    by (auto simp: image_tag_of_def index_def split: if_splits)
  have piece: "CHR '':'' \<in> set image_tag \<longrightarrow>
              1 < length (split_on CHR '':'' image_tag) \<and> tag = split_on CHR '':'' image_tag ! 1"
    using t split_on_second [of "CHR '':''" image_tag]
    by (auto simp: image_tag_of_def index_def split: if_splits)
  have acts: "actions (trace s') =
             actions (trace s) @ FileWrite (manifest_path p) v4
               # (if dry_run p then [] else map Exec (git_commands p tag))"
    unfolding s' using run_each_actions [OF git] by simp
  have fs: "files s' = (files s)(manifest_path p \<mapsto> reload v4)"
    unfolding s' by simp
  have "field2 v4 ''image'' ''tag'' = Inr (YStr tag)"
    using a1 s2 a3 a4 by (rule tag_after_update)
  with tag piece acts fs show ?thesis by blast
qed

theorem written_tag_is_second_piece_witness:
  "fst (build_image port_registry (user_api ''staging'' False) start) =
     Inr ''localhost:5000/user-api:01234567''
   \<and> fst (update_manifest port_registry (user_api ''staging'' False)
            ''localhost:5000/user-api:01234567'' start) = Inr ()
   \<and> (\<exists>doc'.
         files (snd (update_manifest port_registry (user_api ''staging'' False)
                       ''localhost:5000/user-api:01234567'' start)) =
           sample_files(''deploy/staging/values.yaml'' \<mapsto> reload doc')
         \<and> field2 doc' ''image'' ''tag'' = Inr (YStr ''5000/user-api''))"
proof -
  let ?p = "user_api ''staging'' False"
  let ?img = "''localhost:5000/user-api:01234567''"
  let ?s1 = "snd (update_manifest port_registry ?p ?img start)"
  have built: "fst (build_image port_registry ?p start) = Inr ?img"
    by (simp add: stage_defs world_defs port_registry_def getenv_default_def user_api_def
          Let_def)
  have returned: "fst (update_manifest port_registry ?p ?img start) = Inr ()"
    by (simp add: stage_defs world_defs port_registry_def update_manifest_def start_def
          sample_files_def sample_manifest_def user_api_def image_tag_of_def index_def
          git_commands_def write_file_def Let_def)
  then have run: "update_manifest port_registry ?p ?img start = (Inr (), ?s1)"
    by (rule pair_snd)
  from written_tag_is_second_piece [OF run] obtain doc' tag where
        t: "tag = (if CHR '':'' \<in> set ?img
                   then takeWhile (\<lambda>x. x \<noteq> CHR '':'') (tl (dropWhile (\<lambda>x. x \<noteq> CHR '':'') ?img))
                   else ''latest'')"
    and f: "files ?s1 = (files start)(manifest_path ?p \<mapsto> reload doc')"
    and g: "field2 doc' ''image'' ''tag'' = Inr (YStr tag)"
    by blast
  have tag: "tag = ''5000/user-api''"
    using t by simp
  have "files ?s1 = sample_files(''deploy/staging/values.yaml'' \<mapsto> reload doc')"
    using f by (simp add: start_def)
  moreover have "field2 doc' ''image'' ''tag'' = Inr (YStr ''5000/user-api'')"
    using g by (simp only: tag)
  ultimately show ?thesis
    using built returned by blast
qed

subsection \<open>Update of an unaliased manifest\<close>

lemma updatable_iff:
  "updatable kvs \<longleftrightarrow>
     (\<exists>i. map_of kvs (YStr ''image'') = Some (YDict i)) \<and>
     (map_of kvs (YStr ''deployment'') = None \<or>
      (\<exists>d. map_of kvs (YStr ''deployment'') = Some (YDict d)))"
  by (auto simp: updatable_def split: option.splits yaml.splits)

lemma unaliased_chain:
  assumes top: "root doc = YDict kvs" and up: "updatable kvs"
  shows "\<exists>v1 d v2 v3.
           assign2 doc ''image'' ''tag'' (YStr tag) = Inr v1 \<and>
           dict_get (shared v1) (root v1) ''deployment'' (YDict []) = Inr d \<and>
           assign v1 ''deployment'' d = Inr v2 \<and>
           assign2 v2 ''deployment'' ''lastUpdated'' (YStr stamp) = Inr v3 \<and>
           assign2 v3 ''deployment'' ''updatedBy'' (YStr actor) =
             Inr \<lparr>root = written tag stamp actor kvs, shared = shared doc\<rparr>"
proof -
  from up obtain img where img: "map_of kvs (YStr ''image'') = Some (YDict img)"
    by (auto simp: updatable_iff)
  from up obtain dep where dep: "map_of kvs (YStr ''deployment'') = None \<and> dep = [] \<or>
      map_of kvs (YStr ''deployment'') = Some (YDict dep)"
    by (auto simp: updatable_iff)
  show ?thesis
    using img dep
    by (auto simp: assign2_def assign_def getitem_def dict_get_def written_def Let_def top
          update_conv')
qed

lemma update_manifest_unaliased:
  assumes present: "files s (manifest_path p) = Some (Parsed doc)"
      and top: "root doc = YDict kvs" and up: "updatable kvs"
      and t: "image_tag_of image_tag = Inr tag"
  shows "files (snd (update_manifest w p image_tag s)) =
           (files s)(manifest_path p \<mapsto>
              reload \<lparr>root = written tag (now_iso w (step s))
                               (getenv_default w ''GITHUB_ACTOR'' ''unknown'') kvs,
                      shared = shared doc\<rparr>)
         \<and> (fst (update_manifest w p image_tag s) = Inr () \<or>
            (\<exists>e n c. shell w n c = Inl e \<and> fst (update_manifest w p image_tag s) = Inl e))"
proof -
  obtain v1 d v2 v3 where
        a1: "assign2 doc ''image'' ''tag'' (YStr tag) = Inr v1"
    and g: "dict_get (shared v1) (root v1) ''deployment'' (YDict []) = Inr d"
    and s2: "assign v1 ''deployment'' d = Inr v2"
    and a3: "assign2 v2 ''deployment'' ''lastUpdated'' (YStr (now_iso w (step s))) = Inr v3"
    and a4: "assign2 v3 ''deployment'' ''updatedBy''
               (YStr (getenv_default w ''GITHUB_ACTOR'' ''unknown'')) =
             Inr \<lparr>root = written tag (now_iso w (step s))
                             (getenv_default w ''GITHUB_ACTOR'' ''unknown'') kvs,
                    shared = shared doc\<rparr>"
    using unaliased_chain [OF top up] by blast
  let ?doc1 = "\<lparr>root = written tag (now_iso w (step s))
                             (getenv_default w ''GITHUB_ACTOR'' ''unknown'') kvs,
                    shared = shared doc\<rparr>"
  let ?s3 = "write_file (manifest_path p) ?doc1
               (tick (print (memo @ '' Updating manifest: '' @ manifest_path p) s))"
  have u: "update_manifest w p image_tag s =
             (case run_each w p (git_commands p tag) ?s3 of
                (Inl e, s4) \<Rightarrow> (Inl e, s4)
              | (Inr _, s4) \<Rightarrow>
                  (Inr (), print (check_mark @ '' Manifest updated and pushed'') s4))"
    by (simp add: update_manifest_def present t a1 g s2 a3 a4 Let_def print_simps
          del: run_each.simps)
  have fs: "files (snd (update_manifest w p image_tag s)) = files ?s3"
    using run_each_files [of w p "git_commands p tag" ?s3]
    by (simp add: u case_prod_beta split: sum.splits)
  have res: "fst (update_manifest w p image_tag s) = Inr () \<or>
            (\<exists>e n c. shell w n c = Inl e \<and> fst (update_manifest w p image_tag s) = Inl e)"
    using run_each_raises [of w p "git_commands p tag" ?s3]
    by (auto simp: u case_prod_beta split: sum.splits)
  show ?thesis
    using fs res by simp
qed

text \<open>Assigning a string brings no tuple into a dictionary.\<close>

lemma has_tuple_update:
  "has_tuple n h (YDict (AList.update k v al)) \<Longrightarrow>
   has_tuple n h (YDict al) \<or> has_tuple n h k \<or> has_tuple n h v"
  by (induction al) (auto split: if_splits)

lemma has_tuple_entry:
  "map_of al k = Some v \<Longrightarrow> has_tuple n h v \<Longrightarrow> has_tuple n h (YDict al)"
  by (induction al) (auto split: if_splits)

lemma written_tuple_free:
  assumes up: "updatable kvs" and free: "\<not> has_tuple n h (YDict kvs)"
  shows "\<not> has_tuple n h (written tag stamp actor kvs)"
proof -
  from up obtain img where img: "map_of kvs (YStr ''image'') = Some (YDict img)"
    by (auto simp: updatable_iff)
  from up obtain dep where dep: "map_of kvs (YStr ''deployment'') = None \<and> dep = [] \<or>
      map_of kvs (YStr ''deployment'') = Some (YDict dep)"
    by (auto simp: updatable_iff)
  have i: "\<not> has_tuple n h (YDict img)"
    using has_tuple_entry [OF img] free by blast
  have d: "\<not> has_tuple n h (YDict dep)"
    using dep has_tuple_entry [of kvs "YStr ''deployment''" "YDict dep" n h] free by auto
  have i1: "\<not> has_tuple n h (YDict (AList.update (YStr ''tag'') (YStr tag) img))"
    using has_tuple_update [of n h "YStr ''tag''" "YStr tag" img] i by auto
  have d1: "\<not> has_tuple n h (YDict (AList.update (YStr ''lastUpdated'') (YStr stamp) dep))"
    using has_tuple_update [of n h "YStr ''lastUpdated''" "YStr stamp" dep] d by auto
  have d2: "\<not> has_tuple n h (YDict (AList.update (YStr ''updatedBy'') (YStr actor)
                (AList.update (YStr ''lastUpdated'') (YStr stamp) dep)))"
    using has_tuple_update [of n h "YStr ''updatedBy''" "YStr actor"
        "AList.update (YStr ''lastUpdated'') (YStr stamp) dep"] d1 by auto
  have k1: "\<not> has_tuple n h (YDict (AList.update (YStr ''image'')
                (YDict (AList.update (YStr ''tag'') (YStr tag) img)) kvs))"
    using has_tuple_update [of n h "YStr ''image''"
        "YDict (AList.update (YStr ''tag'') (YStr tag) img)" kvs] free i1 by auto
  have "\<not> has_tuple n h (YDict (AList.update (YStr ''deployment'')
           (YDict (AList.update (YStr ''updatedBy'') (YStr actor)
                     (AList.update (YStr ''lastUpdated'') (YStr stamp) dep)))
           (AList.update (YStr ''image'')
                (YDict (AList.update (YStr ''tag'') (YStr tag) img)) kvs)))"
    using has_tuple_update [of n h "YStr ''deployment''"
        "YDict (AList.update (YStr ''updatedBy'') (YStr actor)
                     (AList.update (YStr ''lastUpdated'') (YStr stamp) dep))"
        "AList.update (YStr ''image'')
                (YDict (AList.update (YStr ''tag'') (YStr tag) img)) kvs"] k1 d2 by auto
  then show ?thesis
    using img dep by (auto simp: written_def Let_def)
qed

lemma filter_update_hidden:
  "(\<And>x. \<not> Q (k, x)) \<Longrightarrow> filter Q (AList.update k v al) = filter Q al"
  by (induction al) auto

lemma keys_update_present:
  "k \<in> fst ` set al \<Longrightarrow> map fst (AList.update k v al) = map fst al"
  by (simp add: update_keys)

lemma key_of_update: "k \<in> fst ` set (AList.update k v al)"
  by (induction al) auto

lemma key_kept_by_update: "k \<in> fst ` set al \<Longrightarrow> k \<in> fst ` set (AList.update k' v al)"
  by (induction al) auto

lemma written_frame:
  assumes "updatable kvs"
  shows "only_tag_and_metadata_differ (YDict kvs) (written tag stamp actor kvs)
         \<and> entry (block (written tag stamp actor kvs) ''image'') ''tag'' = Some (YStr tag)"
proof -
  from assms obtain img where img: "map_of kvs (YStr ''image'') = Some (YDict img)"
    by (auto simp: updatable_iff)
  from assms obtain dep where dep: "map_of kvs (YStr ''deployment'') = None \<and> dep = [] \<or>
      map_of kvs (YStr ''deployment'') = Some (YDict dep)"
    by (auto simp: updatable_iff)
  show ?thesis
    using img dep
    by (auto simp: only_tag_and_metadata_differ_def written_def Let_def except_keys_def
          block_def entry_def update_conv' filter_update_hidden)
qed

lemma written_updatable:
  assumes "updatable kvs" and "written tag stamp actor kvs = YDict kvs1"
  shows "updatable kvs1"
  using assms
  by (auto simp: updatable_iff written_def Let_def update_conv')

lemma written_again:
  assumes "updatable kvs" and w1: "written tag stamp actor kvs = YDict kvs1"
  shows "only_metadata_differ (YDict kvs1) (written tag stamp' actor' kvs1)"
proof -
  from assms(1) obtain img where img: "map_of kvs (YStr ''image'') = Some (YDict img)"
    by (auto simp: updatable_iff)
  from assms(1) obtain dep where dep: "map_of kvs (YStr ''deployment'') = None \<and> dep = [] \<or>
      map_of kvs (YStr ''deployment'') = Some (YDict dep)"
    by (auto simp: updatable_iff)
  let ?img1 = "AList.update (YStr ''tag'') (YStr tag) img"
  let ?dep1 = "AList.update (YStr ''updatedBy'') (YStr actor)
                 (AList.update (YStr ''lastUpdated'') (YStr stamp) dep)"
  have kvs1: "kvs1 = AList.update (YStr ''deployment'') (YDict ?dep1)
                       (AList.update (YStr ''image'') (YDict ?img1) kvs)"
    using w1 img dep by (auto simp: written_def Let_def)
  have i1: "map_of kvs1 (YStr ''image'') = Some (YDict ?img1)"
    by (simp add: kvs1 update_conv')
  have d1: "map_of kvs1 (YStr ''deployment'') = Some (YDict ?dep1)"
    by (simp add: kvs1 update_conv')
  have same_image: "AList.update (YStr ''image'') (YDict (AList.update (YStr ''tag'') (YStr tag) ?img1)) kvs1 = kvs1"
    using i1 by (simp add: update_triv)
  have w2: "written tag stamp' actor' kvs1 =
              YDict (AList.update (YStr ''deployment'')
                (YDict (AList.update (YStr ''updatedBy'') (YStr actor')
                   (AList.update (YStr ''lastUpdated'') (YStr stamp') ?dep1))) kvs1)"
    unfolding written_def Let_def by (simp only: i1 d1 option.case yaml.case same_image)
  have dk: "YStr ''deployment'' \<in> fst ` set kvs1"
    unfolding kvs1 by (rule key_of_update)
  have lk: "YStr ''lastUpdated'' \<in> fst ` set ?dep1"
    by (intro key_kept_by_update key_of_update)
  have uk: "YStr ''updatedBy'' \<in> fst ` set (AList.update (YStr ''lastUpdated'') (YStr stamp') ?dep1)"
    by (intro key_kept_by_update key_of_update)
  have keys_dep: "map fst (AList.update (YStr ''updatedBy'') (YStr actor')
                   (AList.update (YStr ''lastUpdated'') (YStr stamp') ?dep1)) = map fst ?dep1"
    using lk uk by (simp only: keys_update_present)
  show ?thesis
    unfolding only_metadata_differ_def w2
    using dk keys_dep d1
    by (simp add: keys_def except_keys_def block_def entry_def update_conv'
          filter_update_hidden keys_update_present)
qed


text \<open>
  A manifest with an ordered map is read with tuples. The update writes them under a tag
  that the safe loader refuses, so the next update raises before it changes anything.
\<close>

lemma tuple_manifest_second_update_raises:
  "fst (update_manifest calm_world (user_api ''staging'' False)
          ''registry.company.com/user-api:abcd1234'' omap_start) = Inr ()
   \<and> fst (update_manifest calm_world (user_api ''staging'' False)
            ''registry.company.com/user-api:abcd1234''
            (snd (update_manifest calm_world (user_api ''staging'' False)
                    ''registry.company.com/user-api:abcd1234'' omap_start))) =
       Inl (YAMLError (''could not determine a constructor for the tag '' @ quote
                       @ ''tag:yaml.org,2002:python/tuple'' @ quote))"
  by (simp add: stage_defs world_defs update_manifest_def omap_start_def omap_manifest_def
        start_def sample_files_def user_api_def image_tag_of_def index_def git_commands_def
        write_file_def Let_def)



lemmas more_defs = push_fails_def later_def updated_manifest_def with_argocd_def
  sync_url_def sync_headers_def sync_body_def app_name_def fmt_opt_def

subsection \<open>Notification\<close>

lemma with_delivery_simps [simp]:
  "shell (with_delivery hook slack w) = shell w"
  "getoutput (with_delivery hook slack w) = getoutput w"
  "http_get (with_delivery hook slack w) = http_get w"
  "now_iso (with_delivery hook slack w) = now_iso w"
  "fmt_duration (with_delivery hook slack w) = fmt_duration w"
  "name \<noteq> ''SLACK_WEBHOOK_URL'' \<Longrightarrow> getenv (with_delivery hook slack w) name = getenv w name"
  "headers \<noteq> [] \<Longrightarrow> http_post (with_delivery hook slack w) n url headers body = http_post w n url headers body"
  by (simp_all add: with_delivery_def)

lemma run_command_delivery [simp]:
  "run_command (with_delivery hook slack w) = run_command w"
  by (intro ext) (simp add: run_command_def)

lemma run_tests_loop_delivery:
  "run_tests_loop (with_delivery hook slack w) p ts s = run_tests_loop w p ts s"
  by (induction ts arbitrary: s) (auto simp: Let_def split: prod.splits sum.splits)

lemma run_tests_delivery [simp]:
  "run_tests (with_delivery hook slack w) = run_tests w"
  by (intro ext) (simp add: run_tests_def run_tests_loop_delivery)

lemma build_image_delivery [simp]:
  "build_image (with_delivery hook slack w) = build_image w"
  by (intro ext)
    (simp add: build_image_def getenv_default_def Let_def split: prod.splits sum.splits)

lemma security_scan_delivery [simp]:
  "security_scan (with_delivery hook slack w) = security_scan w"
  by (intro ext) (simp add: security_scan_def Let_def split: prod.splits sum.splits)

lemma run_each_delivery:
  "run_each (with_delivery hook slack w) p cmds s = run_each w p cmds s"
  by (induction cmds arbitrary: s) (simp_all split: prod.splits sum.splits)

lemma update_manifest_delivery [simp]:
  "update_manifest (with_delivery hook slack w) = update_manifest w"
  by (intro ext)
    (simp add: update_manifest_def getenv_default_def run_each_delivery Let_def
       del: run_each.simps split: option.splits sum.splits file_content.splits)

lemma trigger_delivery [simp]:
  "trigger_argocd_sync (with_delivery hook slack w) = trigger_argocd_sync w"
  by (intro ext)
    (simp add: trigger_argocd_sync_def sync_url_def sync_headers_def Let_def
       split: http_result.splits)

lemma verify_loop_delivery:
  "verify_loop (with_delivery hook slack w) p m atts s = verify_loop w p m atts s"
  by (induction atts arbitrary: s) (simp_all add: Let_def split: http_result.splits)

lemma wait_delivery [simp]:
  "wait_for_deployment (with_delivery hook slack w) = wait_for_deployment w"
  by (intro ext)
    (simp add: wait_for_deployment_def verify_health_def verify_loop_delivery Let_def
       split: prod.splits sum.splits)

lemma rollback_delivery [simp]:
  "rollback (with_delivery hook slack w) = rollback w"
  by (intro ext) (simp add: rollback_def Let_def split: prod.splits sum.splits)

lemma deploy_result_delivery:
  "fst (deploy (with_delivery hook slack w) p s) = fst (deploy w p s)"
  by (simp add: deploy_def deploy_error_def Let_def case_prod_beta split: sum.splits prod.splits)

lemma send_notification_trace:
  "trace (send_notification w p ok msg s) =
     trace s @
     (if falsy (getenv w ''SLACK_WEBHOOK_URL'') then []
      else HttpPost (fmt_opt (getenv w ''SLACK_WEBHOOK_URL'')) []
             (payload p ok (fmt_duration w (deployment_start p) (step s)) msg)
           # (case http_post w (Suc (step s)) (fmt_opt (getenv w ''SLACK_WEBHOOK_URL'')) []
                     (payload p ok (fmt_duration w (deployment_start p) (step s)) msg) of
                Response code body \<Rightarrow> []
              | Raises e \<Rightarrow> [Print (warning_sign @ ''  Failed to send notification: '' @ e)]))"
  by (simp add: send_notification_def Let_def split: http_result.splits)


text \<open>
  Whatever the webhook setting and whatever the notifier's requests are answered, the
  result of \<^verbatim>\<open>deploy\<close> and the exit status of \<^verbatim>\<open>main\<close> are the same. The
  notifier returns normally in every case and never touches a file.
\<close>

lemma delivery_never_changes_outcome:
  "fst (deploy (with_delivery hook slack w) p s) = fst (deploy w p s)
   \<and> exit_status (fst (main (with_delivery hook slack w) a s)) = exit_status (fst (main w a s))
   \<and> files (send_notification w p ok msg s) = files s"
proof -
  have m: "exit_status (fst (main (with_delivery hook slack w) a s)) = exit_status (fst (main w a s))"
    by (simp add: main_def case_prod_beta deploy_result_delivery split: sum.splits prod.splits)
  have f: "files (send_notification w p ok msg s) = files s"
    by (simp add: send_notification_def Let_def split: http_result.splits)
  show ?thesis
    using m f deploy_result_delivery by blast
qed

text \<open>
  C9 does not hold of the code. A failure to deliver is swallowed in every case, but it
  is logged only when the request raises: the notifier never looks at the response, so
  when the webhook answers with an HTTP error nothing is printed. Here the webhook is
  configured and answers 500 to every request, and the trace of the notification holds
  the request and no printed line; the same request, raising, leaves the line of the
  handler.
\<close>

theorem http_error_is_not_logged:
  "\<not> falsy (getenv slack_down ''SLACK_WEBHOOK_URL'')
   \<and> (\<forall>n url headers body. http_post slack_down n url headers body = Response 500 ''server error'')
   \<and> trace (send_notification slack_down (user_api ''staging'' False) False ''Tests failed'' start) =
       [HttpPost ''https://hooks.slack.com/services/T0'' []
          (payload (user_api ''staging'' False) False ''42'' ''Tests failed'')]
   \<and> filter is_print
         (trace (send_notification slack_down (user_api ''staging'' False) False ''Tests failed''
                   start)) = []
   \<and> trace (send_notification
        (slack_down\<lparr>http_post := \<lambda>n url headers body. Raises ''connection reset''\<rparr>)
        (user_api ''staging'' False) False ''Tests failed'' start) =
       [HttpPost ''https://hooks.slack.com/services/T0'' []
          (payload (user_api ''staging'' False) False ''42'' ''Tests failed''),
        Print (warning_sign @ ''  Failed to send notification: connection reset'')]"
  by (simp add: send_notification_def slack_down_def calm_world_def falsy_def fmt_opt_def
        start_def user_api_def Let_def)

subsection \<open>Dry run\<close>

text \<open>
  C4 does not hold of the code. In dry-run mode \<^verbatim>\<open>_run_command\<close> only prints the
  command (the lemmas \<open>run_command_dry\<close> and \<open>run_command_real\<close> above: the text
  printed is the text that real mode spawns), but \<^verbatim>\<open>update_manifest\<close> has no dry-run
  guard and rewrites the manifest file, \<^verbatim>\<open>trigger_argocd_sync\<close> still posts (with
  \<^verbatim>\<open>dryRun\<close> true in the body), and \<^verbatim>\<open>build_image\<close> spawns \<^verbatim>\<open>git rev-parse HEAD\<close>.
\<close>

theorem dry_run_still_writes_manifest:
  "dry_run (user_api ''staging'' True)
   \<and> files start ''deploy/staging/values.yaml'' = Some (Parsed sample_manifest)
   \<and> files (snd (update_manifest calm_world (user_api ''staging'' True)
               ''registry.company.com/user-api:abcd1234'' start)) ''deploy/staging/values.yaml'' =
       Some (Parsed (updated_manifest ''2024-01-01T00:00:00'' ''unknown''))
   \<and> actions (trace (snd (update_manifest calm_world (user_api ''staging'' True)
               ''registry.company.com/user-api:abcd1234'' start))) =
       [FileWrite ''deploy/staging/values.yaml'' (updated_manifest ''2024-01-01T00:00:00'' ''unknown'')]
   \<and> actions (trace (snd (trigger_argocd_sync (with_argocd calm_world) (user_api ''staging'' True) start))) =
       [HttpPost ''https://argocd.company.com/api/v1/applications/user-api-staging/sync''
          [(''Authorization'', ''Bearer secret'')]
          (YDict [(YStr ''prune'', YBool False), (YStr ''dryRun'', YBool True)])]
   \<and> actions (trace (snd (build_image calm_world (user_api ''staging'' True) start))) =
       [Exec ''git rev-parse HEAD'']"
  by (simp add: stage_defs world_defs more_defs write_file_def case_prod_beta)

subsection \<open>A failing push\<close>

lemma update_manifest_missing:
  "files s (manifest_path p) = None \<Longrightarrow>
   update_manifest w p image_tag s =
     (Inl (FileNotFoundError (''Manifest not found: '' @ manifest_path p)), s)"
  by (simp add: update_manifest_def)

text \<open>
  C5 does not hold of the code. A missing manifest raises (the lemma above), but the exit
  status of the three git commands is dropped: when \<^verbatim>\<open>git push origin main\<close> fails,
  the file stays rewritten, the stage prints that the manifest was updated and pushed and
  returns normally, and the whole deployment reports success.
\<close>

theorem push_failure_is_swallowed:
  "(\<forall>n. \<exists>r. shell push_fails n ''git push origin main'' = Inr r \<and> returncode r = 1)
   \<and> fst (update_manifest push_fails (user_api ''staging'' False)
            ''registry.company.com/user-api:abcd1234'' start) = Inr ()
   \<and> files (snd (update_manifest push_fails (user_api ''staging'' False)
            ''registry.company.com/user-api:abcd1234'' start)) ''deploy/staging/values.yaml'' =
       Some (Parsed (updated_manifest ''2024-01-01T00:00:00'' ''unknown''))
   \<and> actions (trace (snd (update_manifest push_fails (user_api ''staging'' False)
            ''registry.company.com/user-api:abcd1234'' start))) =
       [FileWrite ''deploy/staging/values.yaml'' (updated_manifest ''2024-01-01T00:00:00'' ''unknown''),
        Exec ''git add deploy/staging/values.yaml'',
        Exec (''git commit -m '' @ quote @ ''Deploy user-api:abcd1234 to staging'' @ quote),
        Exec ''git push origin main'']
   \<and> last (trace (snd (update_manifest push_fails (user_api ''staging'' False)
            ''registry.company.com/user-api:abcd1234'' start))) =
       Print (check_mark @ '' Manifest updated and pushed'')
   \<and> fst (deploy push_fails (user_api ''staging'' False) start) = True"
  by (simp add: stage_defs world_defs more_defs write_file_def deploy_def rollback_def
        send_notification_def case_prod_beta)

end
